theory Spec2Isabelle
  imports Main "HOL-Library.AList"
begin

section \<open>Python strings\<close>

text \<open>
  A Python \<open>str\<close> is a sequence of Unicode code points and \<open>len\<close> counts code points,
  so a string is modelled as the list of its code points. ASCII literals of the source
  are written with \<open>ascii\<close>; the Cyrillic literals are given by their code points.
\<close>

type_synonym pychar = nat
type_synonym pystr = "pychar list"

definition ascii :: "string \<Rightarrow> pystr" where
  "ascii cs = map of_char cs"

text \<open>
  The first code point of every block of Unicode decimal digits (category Nd, Unicode
  14.0): each block holds the ten digits 0..9 in order. The regular expression class
  \<open>\d\<close> on a \<open>str\<close> pattern and the built-in \<open>int\<close> both accept exactly these.
\<close>

definition nd_zeros :: "pychar list" where
  "nd_zeros =
    [48, 1632, 1776, 1984, 2406, 2534, 2662, 2790, 2918, 3046, 3174, 3302, 3430, 3558,
     3664, 3792, 3872, 4160, 4240, 6112, 6160, 6470, 6608, 6784, 6800, 6992, 7088, 7232,
     7248, 42528, 43216, 43264, 43472, 43504, 43600, 44016, 65296, 66720, 68912, 69734,
     69872, 69942, 70096, 70384, 70736, 70864, 71248, 71360, 71472, 71904, 72016, 72784,
     73040, 73120, 92768, 92864, 93008, 120782, 120792, 120802, 120812, 120822, 123200,
     123632, 125264, 130032]"

definition decimal :: "pychar \<Rightarrow> nat option" where
  "decimal c =
     (case find (\<lambda>z. z \<le> c \<and> c < z + 10) nd_zeros of
        None \<Rightarrow> None
      | Some z \<Rightarrow> Some (c - z))"

text \<open>The code points for which \<open>str.isspace\<close> holds: what \<open>strip\<close> and \<open>split\<close> skip.\<close>

definition unicode_spaces :: "pychar list" where
  "unicode_spaces =
    [9, 10, 11, 12, 13, 28, 29, 30, 31, 32, 133, 160, 5760, 8192, 8193, 8194, 8195, 8196,
     8197, 8198, 8199, 8200, 8201, 8202, 8232, 8233, 8239, 8287, 12288]"

definition isspace :: "pychar \<Rightarrow> bool" where
  "isspace c = (c \<in> set unicode_spaces)"

definition strip :: "pystr \<Rightarrow> pystr" where
  "strip s = rev (dropWhile isspace (rev (dropWhile isspace s)))"

text \<open>
  \<open>s.split(maxsplit=1)\<close>: leading whitespace is skipped; the first field runs to the
  next whitespace; whatever follows the whitespace after it, if anything, is the second
  field, taken to the end of the string.
\<close>

definition split_maxsplit1 :: "pystr \<Rightarrow> pystr list" where
  "split_maxsplit1 s =
     (let s1 = dropWhile isspace s in
      if s1 = [] then []
      else
        let field = takeWhile (\<lambda>c. \<not> isspace c) s1;
            rest = dropWhile isspace (dropWhile (\<lambda>c. \<not> isspace c) s1)
        in if rest = [] then [field] else [field, rest])"

text \<open>
  \<open>str.lower\<close>, on the ASCII letters. The only other code points whose lower case holds
  an ASCII letter are U+0130 (giving \<open>i\<close> and a combining dot) and U+212A (giving
  \<open>k\<close>); neither letter occurs in a command name, so comparing the lowered command
  word with the four ASCII command names is not affected.
\<close>

definition lower :: "pystr \<Rightarrow> pystr" where
  "lower s = map (\<lambda>c. if 65 \<le> c \<and> c \<le> 90 then c + 32 else c) s"

text \<open>\<open>str(n)\<close> for an integer, as in \<open>f"{hours}"\<close>.\<close>

fun nat_digits :: "nat \<Rightarrow> pystr" where
  "nat_digits n = (if n < 10 then [48 + n] else nat_digits (n div 10) @ [48 + n mod 10])"

declare nat_digits.simps [simp del]

definition str_int :: "int \<Rightarrow> pystr" where
  "str_int i = (if i < 0 then 45 # nat_digits (nat (- i)) else nat_digits (nat i))"

text \<open>\<open>' '.join(parts)\<close>.\<close>

fun join_space :: "pystr list \<Rightarrow> pystr" where
  "join_space [] = []"
| "join_space [p] = p"
| "join_space (p # q # ps) = p @ 32 # join_space (q # ps)"

subsection \<open>Numbers in strings\<close>

text \<open>
  The two \<open>ValueError\<close>s of the program: the one \<open>extract_user_id\<close> raises at line 73,
  and the one the built-in \<open>int\<close> raises on a string with more digits than the
  interpreter converts. That limit is CPython's \<open>sys.int_max_str_digits\<close>, 4300 unless
  the interpreter is started with another value; the digits are counted with their
  leading zeros, without sign, underscores and whitespace.
\<close>

datatype value_error = CannotExtractId | DigitLimit

definition int_max_str_digits :: nat where
  "int_max_str_digits = 4300"

definition digits_value :: "nat list \<Rightarrow> nat" where
  "digits_value ds = foldl (\<lambda>a d. 10 * a + d) 0 ds"

text \<open>\<open>int(group)\<close> for a group matched by \<open>\d+\<close>, given by the values of its digits.\<close>

definition int_of_digits :: "nat list \<Rightarrow> value_error + nat" where
  "int_of_digits ds =
     (if length ds > int_max_str_digits then Inl DigitLimit else Inr (digits_value ds))"

text \<open>The decimal digits a string starts with (their values), and what follows them.\<close>

fun span_digits :: "pystr \<Rightarrow> nat list \<times> pystr" where
  "span_digits [] = ([], [])"
| "span_digits (c # cs) =
     (case decimal c of
        None \<Rightarrow> ([], c # cs)
      | Some d \<Rightarrow> (case span_digits cs of (ds, rest) \<Rightarrow> (d # ds, rest)))"

text \<open>
  \<open>re.search(r'(\d+)X', s)\<close> for a marker \<open>X\<close> that is not a digit. The search tries
  each start position from the left. At a position, the greedy \<open>\d+\<close> takes the whole
  run of digits; a shorter run would be followed by a digit, never by the marker, so
  backtracking cannot succeed where the whole run fails. The result is the group, as
  the values of its digits, \<open>None\<close> when nothing matches.
\<close>

fun search_digits_before :: "pychar \<Rightarrow> pystr \<Rightarrow> nat list option" where
  "search_digits_before m [] = None"
| "search_digits_before m (c # cs) =
     (case span_digits (c # cs) of
        (d # ds, r # rest) \<Rightarrow>
          if r = m then Some (d # ds) else search_digits_before m cs
      | _ \<Rightarrow> search_digits_before m cs)"

text \<open>
  The built-in \<open>int(s)\<close> on a string, base 10; \<open>None\<close> is \<open>ValueError\<close>. CPython first
  maps the string to ASCII (\<open>to_ascii\<close>: code points below 127 are kept, other
  whitespace becomes a space, other decimal digits become ASCII digits, anything else
  becomes \<open>?\<close>), then reads: C-locale whitespace, an optional sign, digits with single
  underscores between them, whitespace, end of string; more digits than
  \<open>int_max_str_digits\<close> are refused.
\<close>

definition to_ascii :: "pychar \<Rightarrow> pychar" where
  "to_ascii c =
     (if c < 127 then c
      else if isspace c then 32
      else case decimal c of None \<Rightarrow> 63 | Some d \<Rightarrow> 48 + d)"

definition c_isspace :: "pychar \<Rightarrow> bool" where
  "c_isspace c = ((9 \<le> c \<and> c \<le> 13) \<or> c = 32)"

definition digit_or_underscore :: "pychar \<Rightarrow> bool" where
  "digit_or_underscore c = ((48 \<le> c \<and> c \<le> 57) \<or> c = 95)"

text \<open>
  The scan over digits and underscores: \<open>prev\<close> is the character before; two
  underscores in a row and an underscore at the end are refused.
\<close>

fun scan_digits :: "pychar \<Rightarrow> pystr \<Rightarrow> nat list option" where
  "scan_digits prev [] = (if prev = 95 then None else Some [])"
| "scan_digits prev (c # cs) =
     (if c = 95 then (if prev = 95 then None else scan_digits c cs)
      else map_option (\<lambda>ds. (c - 48) # ds) (scan_digits c cs))"

definition py_int :: "pystr \<Rightarrow> int option" where
  "py_int s =
     (let t = dropWhile c_isspace (map to_ascii s);
          neg = (t \<noteq> [] \<and> hd t = 45);
          u = (if t \<noteq> [] \<and> (hd t = 43 \<or> hd t = 45) then tl t else t)
      in if u \<noteq> [] \<and> hd u = 95 then None
         else
           (case scan_digits 0 (takeWhile digit_or_underscore u) of
              None \<Rightarrow> None
            | Some ds \<Rightarrow>
                if ds = [] \<or> dropWhile c_isspace (dropWhile digit_or_underscore u) \<noteq> []
                   \<or> length ds > int_max_str_digits
                then None
                else Some (if neg then - int (digits_value ds) else int (digits_value ds))))"

section \<open>The duration parser\<close>

text \<open>The hour marker (U+0447) and the minute marker (U+043C) of the source.\<close>

definition che :: pychar where "che = 1095"
definition em :: pychar where "em = 1084"

text \<open>
  The body of \<open>parse_duration\<close> before the clamp (lines 92-117): the total and the
  parts of the display. The two conversions of a matched group (lines 98 and 105) are
  outside any \<open>try\<close>, so their \<open>ValueError\<close> leaves the function; the one of the whole
  string (line 112) is caught at line 115.
\<close>

definition duration_parts :: "pystr \<Rightarrow> value_error + (int \<times> pystr list)" where
  "duration_parts duration_str =
     (case (case search_digits_before che duration_str of
              None \<Rightarrow> Inr (0, [])
            | Some hours_group \<Rightarrow>
                (case int_of_digits hours_group of
                   Inl e \<Rightarrow> Inl e
                 | Inr hours \<Rightarrow> Inr (int hours * 60, [str_int (int hours) @ [che]]))) of
        Inl e \<Rightarrow> Inl e
      | Inr (total1, parts1) \<Rightarrow>
          (case (case search_digits_before em duration_str of
                   None \<Rightarrow> Inr (total1, parts1)
                 | Some minutes_group \<Rightarrow>
                     (case int_of_digits minutes_group of
                        Inl e \<Rightarrow> Inl e
                      | Inr minutes \<Rightarrow>
                          Inr (total1 + int minutes,
                               parts1 @ [str_int (int minutes) @ [em]]))) of
             Inl e \<Rightarrow> Inl e
           | Inr (total2, parts2) \<Rightarrow>
               Inr (if total2 = 0 then
                      (case py_int duration_str of
                         Some hours \<Rightarrow> (hours * 60, parts2 @ [str_int hours @ [che]])
                       | None \<Rightarrow> (60, parts2 @ [[49, che]]))
                    else (total2, parts2))))"

text \<open>
  \<open>parse_duration\<close> (lines 83-122): the default for the empty string, whose display
  is the two-word literal of line 90; otherwise the total, clamped at line 120, and
  the joined parts. \<open>Inl\<close> is a \<open>ValueError\<close> that leaves the function.
\<close>

definition one_hour_display :: pystr where
  "one_hour_display = [49, 32, 1095, 1072, 1089]"

definition parse_duration :: "pystr \<Rightarrow> value_error + (int \<times> pystr)" where
  "parse_duration duration_str =
     (if duration_str = [] then Inr (60, one_hour_display)
      else
        (case duration_parts duration_str of
           Inl e \<Rightarrow> Inl e
         | Inr (total_minutes, time_parts) \<Rightarrow>
             Inr (min total_minutes 1440, join_space time_parts)))"

section \<open>The moderation registry\<close>

text \<open>
  The two module-level dictionaries (lines 26 and 29). A Python \<open>dict\<close> keeps its keys
  in insertion order, assigning to a key that is present keeps its place, and \<open>del\<close>
  removes the key: an association list with \<open>AList.update\<close> and \<open>AList.delete\<close>.
  A \<open>datetime\<close> is the number of microseconds since a fixed origin; the bounds of the
  type (the years 1 to 9999) are not modelled.
\<close>

type_synonym user_id = int
type_synonym time = int

record registry =
  muted_users :: "(user_id \<times> (time \<times> pystr)) list"
  banned_users :: "(user_id \<times> pystr) list"

text \<open>\<open>k in d\<close>.\<close>

definition contains :: "'k \<Rightarrow> ('k \<times> 'v) list \<Rightarrow> bool" where
  "contains k d = (k \<in> set (map fst d))"

text \<open>\<open>timedelta(minutes=m)\<close>.\<close>

definition timedelta_minutes :: "int \<Rightarrow> time" where
  "timedelta_minutes m = m * 60000000"

text \<open>\<open>is_user_muted\<close> (lines 124-134); \<open>now\<close> is what \<open>datetime.now()\<close> returns.\<close>

definition is_user_muted :: "time \<Rightarrow> user_id \<Rightarrow> registry \<Rightarrow> bool \<times> registry" where
  "is_user_muted now user_id s =
     (case map_of (muted_users s) user_id of
        Some (unmute_time, _) \<Rightarrow>
          if now < unmute_time then (True, s)
          else (False, s\<lparr>muted_users := AList.delete user_id (muted_users s)\<rparr>)
      | None \<Rightarrow> (False, s))"

text \<open>\<open>is_user_banned\<close> (lines 136-138).\<close>

definition is_user_banned :: "user_id \<Rightarrow> registry \<Rightarrow> bool" where
  "is_user_banned user_id s = contains user_id (banned_users s)"

section \<open>Messages, transport and effects\<close>

text \<open>
  An inbound message, with the fields the handlers read. The replied-to message is a
  message itself.
\<close>

datatype message =
  Message (from_user_id: user_id) (full_name: pystr) (msg_text: "pystr option")
    (msg_caption: "pystr option") (reply_to_message: "message option")

text \<open>What \<open>bot.get_chat\<close> returns.\<close>

record chat =
  chat_id :: user_id
  first_name :: "pystr option"
  last_name :: "pystr option"
  username :: "pystr option"

text \<open>
  The status line of the info reply (lines 239-249). For a muted user it is made from
  the unmute time and from the remaining time, \<open>unmute_time - datetime.now()\<close>.
\<close>

datatype status = NoStatus | StatusBanned pystr | StatusMuted time time

text \<open>
  The texts the bot sends. Every constructor stands for one string literal of the
  source, and its arguments are the values the literal interpolates; the line of the
  literal is given. The formatting of a date by \<open>strftime\<close> and of a remaining time
  (a \<open>timedelta\<close>, in microseconds here) into hours and minutes is not modelled: the
  date and the remaining time themselves are the arguments.
\<close>

datatype out_text =
    AutoUnmuteNotice                       \<comment> \<open>line 50\<close>
  | BannedReply pystr                      \<comment> \<open>lines 181 and 397: reason\<close>
  | MutedReply pystr time                  \<comment> \<open>lines 196 and 412: reason, remaining time\<close>
  | TextTooLong                            \<comment> \<open>line 204\<close>
  | GroupForward pystr user_id pystr       \<comment> \<open>lines 209-211: full name, id, text\<close>
  | ExtractFailed value_error              \<comment> \<open>line 225: the text of the ValueError\<close>
  | UserNotFound pystr                     \<comment> \<open>line 231: error message\<close>
  | InfoReply pystr user_id "pystr option" status  \<comment> \<open>lines 254-257\<close>
  | AdminExtractError value_error          \<comment> \<open>line 282: the text of the ValueError\<close>
  | BanNotice pystr                        \<comment> \<open>line 305: reason\<close>
  | BanConfirm                             \<comment> \<open>line 307\<close>
  | BanError pystr                         \<comment> \<open>line 309: error message\<close>
  | MuteTargetBanned                       \<comment> \<open>line 315\<close>
  | MuteNotice pystr pystr time            \<comment> \<open>lines 345-347: display, reason, end time\<close>
  | MuteConfirm pystr                      \<comment> \<open>line 349: display\<close>
  | MuteError pystr                        \<comment> \<open>line 351: error message\<close>
  | UnmuteNotice                           \<comment> \<open>line 360\<close>
  | UnmuteConfirm                          \<comment> \<open>line 362\<close>
  | NotMuted                               \<comment> \<open>line 364\<close>
  | UnmuteError pystr                      \<comment> \<open>line 366: error message\<close>
  | UnbanNotice                            \<comment> \<open>line 375\<close>
  | UnbanConfirm                           \<comment> \<open>line 377\<close>
  | NotBanned                              \<comment> \<open>line 379\<close>
  | UnbanError pystr                       \<comment> \<open>line 381: error message\<close>
  | UnknownCommand                         \<comment> \<open>lines 384-388\<close>
  | CaptionTooLong                         \<comment> \<open>line 420\<close>
  | MediaCaption pystr pystr user_id       \<comment> \<open>lines 425-426: caption, full name, id\<close>
  | MediaError pystr                       \<comment> \<open>line 431: error message\<close>

text \<open>
  The calls a handler awaits: \<open>bot.send_message\<close>, \<open>message.reply\<close>,
  \<open>message.copy_to\<close>, \<open>bot.get_chat\<close> and \<open>asyncio.sleep\<close>. \<open>Group\<close> is the chat
  named by \<open>GROUP_ID\<close>. Calls to the logger are left out.
\<close>

datatype chat_ref = User user_id | Group

datatype effect =
    SendMessage chat_ref out_text
  | Reply out_text
  | CopyTo chat_ref out_text
  | GetChat user_id
  | Sleep nat

text \<open>
  The transport is the environment of a handler: for each call it says whether the
  call raises \<open>TelegramAPIError\<close>, and with which message. A handler returns the new
  registry, the calls it made in order, and how it ended.
\<close>

type_synonym transport = "effect \<Rightarrow> pystr option"

datatype exn =
    TelegramAPIError pystr
  | ValueError value_error
  | AttributeError
  | IndexError
  | KeyError
  | TypeError

datatype outcome = Returned | Raised exn

type_synonym result = "registry \<times> effect list \<times> outcome"

text \<open>One awaited call outside any \<open>try\<close>: its error propagates.\<close>

definition perform :: "transport \<Rightarrow> effect \<Rightarrow> effect list \<times> outcome" where
  "perform tr e =
     ([e], case tr e of None \<Rightarrow> Returned | Some err \<Rightarrow> Raised (TelegramAPIError err))"

text \<open>The calls of a \<open>try\<close> body in order, up to and including the first that raises.\<close>

fun attempt_all :: "transport \<Rightarrow> effect list \<Rightarrow> effect list \<times> pystr option" where
  "attempt_all tr [] = ([], None)"
| "attempt_all tr (e # es) =
     (case tr e of
        Some err \<Rightarrow> ([e], Some err)
      | None \<Rightarrow> (case attempt_all tr es of (made, r) \<Rightarrow> (e # made, r)))"

text \<open>
  \<open>try: body except TelegramAPIError as e: await message.reply(handler(e.message))\<close>.
  The reply of the \<open>except\<close> clause is itself a call that may raise.
\<close>

definition try_except ::
  "transport \<Rightarrow> effect list \<Rightarrow> (pystr \<Rightarrow> out_text) \<Rightarrow> effect list \<times> outcome" where
  "try_except tr body handler =
     (case attempt_all tr body of
        (made, None) \<Rightarrow> (made, Returned)
      | (made, Some err) \<Rightarrow>
          (case perform tr (Reply (handler err)) of (r, out) \<Rightarrow> (made @ r, out)))"

section \<open>The expiry sweeper\<close>

text \<open>The first loop of a cycle (lines 37-42): the keys whose mute has expired.\<close>

definition expired_users :: "time \<Rightarrow> (user_id \<times> (time \<times> pystr)) list \<Rightarrow> user_id list" where
  "expired_users current_time d =
     map fst (filter (\<lambda>(user_id, (unmute_time, reason)). current_time \<ge> unmute_time) d)"

text \<open>
  The second loop (lines 45-54). \<open>del\<close> raises \<open>KeyError\<close> on a missing key, which
  ends the loop (the flag is then \<open>False\<close>). The notification is sent after the
  deletion, and whether it succeeds or raises, the loop goes on, so the transport is
  not consulted.
\<close>

fun unmute_expired :: "user_id list \<Rightarrow> registry \<Rightarrow> registry \<times> effect list \<times> bool" where
  "unmute_expired [] s = (s, [], True)"
| "unmute_expired (user_id # rest) s =
     (if \<not> contains user_id (muted_users s) then (s, [], False)
      else
        (case unmute_expired rest (s\<lparr>muted_users := AList.delete user_id (muted_users s)\<rparr>) of
           (s', effs, ok) \<Rightarrow> (s', SendMessage (User user_id) AutoUnmuteNotice # effs, ok)))"

text \<open>
  One cycle of the loop body (lines 35-59): scan, evict, then sleep 60 seconds; an
  exception in the body is caught at line 57 and followed by the same sleep.
\<close>

definition sweep_cycle :: "time \<Rightarrow> registry \<Rightarrow> registry \<times> effect list" where
  "sweep_cycle current_time s =
     (case unmute_expired (expired_users current_time (muted_users s)) s of
        (s', effs, ok) \<Rightarrow> (s', effs @ [Sleep 60]))"

text \<open>
  \<open>check_mute_expirations\<close> (lines 32-59). The loop never ends; the model runs one
  cycle for each clock reading of a finite list, which gives every finite prefix of
  a run.
\<close>

fun check_mute_expirations :: "time list \<Rightarrow> registry \<Rightarrow> registry \<times> effect list" where
  "check_mute_expirations [] s = (s, [])"
| "check_mute_expirations (current_time # later) s =
     (case sweep_cycle current_time s of
        (s1, effs1) \<Rightarrow>
          (case check_mute_expirations later s1 of
             (s2, effs2) \<Rightarrow> (s2, effs1 @ effs2)))"

section \<open>The handlers\<close>

text \<open>
  \<open>extract_user_id\<close> (lines 61-73). The search for \<open>tg://user\?id=(\d+)\<close> tries
  each start position from the left: the literal prefix, then at least one digit; the
  group is the whole run of digits, converted by \<open>int\<close> at line 72. \<open>Inl\<close> is a
  \<open>ValueError\<close>: the one of line 73, or the one of the conversion.
\<close>

definition user_link :: pystr where
  "user_link = ascii ''tg://user?id=''"

fun search_user_link :: "pystr \<Rightarrow> nat list option" where
  "search_user_link [] = None"
| "search_user_link (c # cs) =
     (if take (length user_link) (c # cs) = user_link then
        (case span_digits (drop (length user_link) (c # cs)) of
           (d # ds, rest) \<Rightarrow> Some (d # ds)
         | _ \<Rightarrow> search_user_link cs)
      else search_user_link cs)"

definition extract_user_id :: "message \<Rightarrow> value_error + user_id" where
  "extract_user_id m =
     (let text_to_search =
            (case msg_text m of
               Some t \<Rightarrow>
                 if t \<noteq> [] then t
                 else (case msg_caption m of Some c \<Rightarrow> c | None \<Rightarrow> [])
             | None \<Rightarrow> (case msg_caption m of Some c \<Rightarrow> c | None \<Rightarrow> []))
      in case search_user_link text_to_search of
           None \<Rightarrow> Inl CannotExtractId
         | Some id_group \<Rightarrow>
             (case int_of_digits id_group of
                Inl e \<Rightarrow> Inl e
              | Inr n \<Rightarrow> Inr (int n)))"

text \<open>\<open>get_name\<close> (lines 75-81).\<close>

definition get_name :: "chat \<Rightarrow> pystr" where
  "get_name c =
     (case first_name c of
        None \<Rightarrow> []
      | Some f \<Rightarrow>
          if f = [] then []
          else (case last_name c of
                  None \<Rightarrow> f
                | Some l \<Rightarrow> if l = [] then f else f @ 32 # l))"

text \<open>
  The check shared by the two relay handlers (lines 177-201 and 393-417): a banned
  user gets the ban reason, a muted user the reason and the remaining time, and
  \<open>None\<close> means that the handler goes on. \<open>now\<close> is the clock reading inside
  \<open>is_user_muted\<close>, \<open>now2\<close> the later one from which the remaining time is taken.
\<close>

definition restricted_reply ::
  "transport \<Rightarrow> time \<Rightarrow> time \<Rightarrow> user_id \<Rightarrow> registry \<Rightarrow> result option \<times> registry" where
  "restricted_reply tr now now2 uid s =
     (if is_user_banned uid s then
        (case map_of (banned_users s) uid of
           None \<Rightarrow> (Some (s, [], Raised KeyError), s)
         | Some reason \<Rightarrow>
             (case perform tr (Reply (BannedReply reason)) of
                (effs, out) \<Rightarrow> (Some (s, effs, out), s)))
      else
        (case is_user_muted now uid s of
           (True, s1) \<Rightarrow>
             (case map_of (muted_users s1) uid of
                None \<Rightarrow> (Some (s1, [], Raised KeyError), s1)
              | Some (unmute_time, reason) \<Rightarrow>
                  (case perform tr (Reply (MutedReply reason (unmute_time - now2))) of
                     (effs, out) \<Rightarrow> (Some (s1, effs, out), s1)))
         | (False, s1) \<Rightarrow> (None, s1)))"

text \<open>\<open>send_message_to_group\<close> (lines 175-215).\<close>

definition send_message_to_group ::
  "transport \<Rightarrow> time \<Rightarrow> time \<Rightarrow> message \<Rightarrow> registry \<Rightarrow> result" where
  "send_message_to_group tr now now2 message s =
     (case restricted_reply tr now now2 (from_user_id message) s of
        (Some r, _) \<Rightarrow> r
      | (None, s1) \<Rightarrow>
          (case msg_text message of
             None \<Rightarrow> (s1, [], Raised TypeError)
           | Some t \<Rightarrow>
               if length t > 4000 then
                 (case perform tr (Reply TextTooLong) of (effs, out) \<Rightarrow> (s1, effs, out))
               else
                 (case perform tr
                         (SendMessage Group
                            (GroupForward (full_name message) (from_user_id message) t)) of
                    (effs, out) \<Rightarrow> (s1, effs, out))))"

text \<open>\<open>supported_media\<close> (lines 391-431).\<close>

definition supported_media ::
  "transport \<Rightarrow> time \<Rightarrow> time \<Rightarrow> message \<Rightarrow> registry \<Rightarrow> result" where
  "supported_media tr now now2 message s =
     (case restricted_reply tr now now2 (from_user_id message) s of
        (Some r, _) \<Rightarrow> r
      | (None, s1) \<Rightarrow>
          (let caption = (case msg_caption message of None \<Rightarrow> [] | Some c \<Rightarrow> c) in
           if caption \<noteq> [] \<and> length caption > 1000 then
             (case perform tr (Reply CaptionTooLong) of (effs, out) \<Rightarrow> (s1, effs, out))
           else
             (case try_except tr
                     [CopyTo Group
                        (MediaCaption caption (full_name message) (from_user_id message))]
                     MediaError of
                (effs, out) \<Rightarrow> (s1, effs, out))))"

text \<open>
  \<open>get_user_info\<close> (lines 220-258). \<open>get_chat\<close> is what \<open>bot.get_chat\<close> returns when
  it does not raise; \<open>now\<close> and \<open>now2\<close> are the clock readings of lines 244 and 245.
\<close>

definition get_user_info ::
  "transport \<Rightarrow> (user_id \<Rightarrow> chat) \<Rightarrow> time \<Rightarrow> time \<Rightarrow> message \<Rightarrow> registry \<Rightarrow> result" where
  "get_user_info tr get_chat now now2 message s =
     (case reply_to_message message of
        None \<Rightarrow> (s, [], Raised AttributeError)
      | Some replied \<Rightarrow>
          (case extract_user_id replied of
             Inl err \<Rightarrow>
               (case perform tr (Reply (ExtractFailed err)) of (effs, out) \<Rightarrow> (s, effs, out))
           | Inr user_id \<Rightarrow>
               (case tr (GetChat user_id) of
                  Some err \<Rightarrow>
                    (case perform tr (Reply (UserNotFound err)) of
                       (effs, out) \<Rightarrow> (s, GetChat user_id # effs, out))
                | None \<Rightarrow>
                    (let user = get_chat user_id;
                         (status_info, s1) =
                           (case map_of (banned_users s) user_id of
                              Some reason \<Rightarrow> (StatusBanned reason, s)
                            | None \<Rightarrow>
                                (case map_of (muted_users s) user_id of
                                   None \<Rightarrow> (NoStatus, s)
                                 | Some (unmute_time, reason) \<Rightarrow>
                                     if now < unmute_time then
                                       (StatusMuted unmute_time (unmute_time - now2), s)
                                     else
                                       (NoStatus,
                                        s\<lparr>muted_users :=
                                             AList.delete user_id (muted_users s)\<rparr>)))
                     in (case perform tr
                                (Reply (InfoReply (get_name user) (chat_id user)
                                          (username user) status_info)) of
                           (effs, out) \<Rightarrow> (s1, GetChat user_id # effs, out))))))"

subsection \<open>Admin commands\<close>

text \<open>The default reasons of lines 292 and 319, and the default duration of line 327.\<close>

definition default_ban_reason :: pystr where
  "default_ban_reason =
     [1047, 1072, 1073, 1083, 1086, 1082, 1080, 1088, 1086, 1074, 1072, 1085, 32, 1072,
      1076, 1084, 1080, 1085, 1080, 1089, 1090, 1088, 1072, 1090, 1086, 1088, 1086, 1084]"

definition default_mute_reason :: pystr where
  "default_mute_reason =
     [1053, 1072, 1088, 1091, 1096, 1077, 1085, 1080, 1077, 32, 1087, 1088, 1072, 1074,
      1080, 1083]"

definition one_hour :: pystr where
  "one_hour = [49, che]"

text \<open>The branch of \<open>/ban\<close> (lines 289-309).\<close>

definition cmd_ban :: "transport \<Rightarrow> user_id \<Rightarrow> pystr list \<Rightarrow> registry \<Rightarrow> result" where
  "cmd_ban tr user_id command_parts s =
     (let reason = (if length command_parts > 1 then strip (command_parts ! 1)
                    else default_ban_reason);
          s1 = s\<lparr>banned_users := AList.update user_id reason (banned_users s)\<rparr>;
          s2 = (if contains user_id (muted_users s1)
                then s1\<lparr>muted_users := AList.delete user_id (muted_users s1)\<rparr>
                else s1)
      in (case try_except tr
                [SendMessage (User user_id) (BanNotice reason), Reply BanConfirm]
                BanError of
            (effs, out) \<Rightarrow> (s2, effs, out)))"

text \<open>
  The duration the mute command uses (lines 330-334): the parser's result, replaced
  by one hour when it is not positive. A \<open>ValueError\<close> of the parser passes through.
\<close>

definition mute_duration :: "pystr \<Rightarrow> value_error + (int \<times> pystr)" where
  "mute_duration duration_str =
     (case parse_duration duration_str of
        Inl e \<Rightarrow> Inl e
      | Inr (total_minutes, time_display) \<Rightarrow>
          Inr (if total_minutes \<le> 0 then (60, one_hour) else (total_minutes, time_display)))"

text \<open>
  The arguments of \<open>/mute\<close> (lines 319-327): the duration word and the reason.
  \<open>None\<close> is the \<open>IndexError\<close> of \<open>args[0]\<close> on an empty list.
\<close>

definition mute_args :: "pystr list \<Rightarrow> (pystr \<times> pystr) option" where
  "mute_args command_parts =
     (if length command_parts > 1 then
        (case split_maxsplit1 (strip (command_parts ! 1)) of
           [] \<Rightarrow> None
         | duration_str # others \<Rightarrow>
             Some (duration_str, if length others > 0 then others ! 0 else default_mute_reason))
      else Some (one_hour, default_mute_reason))"

text \<open>
  The branch of \<open>/mute\<close> (lines 311-351). Its \<open>except\<close> clause catches
  \<open>TelegramAPIError\<close> only, so a \<open>ValueError\<close> of the parser leaves the handler, before
  the registry is touched.
\<close>

definition cmd_mute ::
  "transport \<Rightarrow> time \<Rightarrow> user_id \<Rightarrow> pystr list \<Rightarrow> registry \<Rightarrow> result" where
  "cmd_mute tr now user_id command_parts s =
     (if contains user_id (banned_users s) then
        (case try_except tr [Reply MuteTargetBanned] MuteError of
           (effs, out) \<Rightarrow> (s, effs, out))
      else
        (case mute_args command_parts of
           None \<Rightarrow> (s, [], Raised IndexError)
         | Some (duration_str, reason) \<Rightarrow>
             (case mute_duration duration_str of
                Inl e \<Rightarrow> (s, [], Raised (ValueError e))
              | Inr (total_minutes, time_display) \<Rightarrow>
                  (let unmute_time = now + timedelta_minutes total_minutes;
                       s1 = s\<lparr>muted_users :=
                                AList.update user_id (unmute_time, reason) (muted_users s)\<rparr>
                   in (case try_except tr
                             [SendMessage (User user_id)
                                (MuteNotice time_display reason unmute_time),
                              Reply (MuteConfirm time_display)]
                             MuteError of
                         (effs, out) \<Rightarrow> (s1, effs, out))))))"

text \<open>The branch of \<open>/unmute\<close> (lines 353-366).\<close>

definition cmd_unmute :: "transport \<Rightarrow> user_id \<Rightarrow> registry \<Rightarrow> result" where
  "cmd_unmute tr user_id s =
     (if contains user_id (muted_users s) then
        (case try_except tr
                [SendMessage (User user_id) UnmuteNotice, Reply UnmuteConfirm]
                UnmuteError of
           (effs, out) \<Rightarrow>
             (s\<lparr>muted_users := AList.delete user_id (muted_users s)\<rparr>, effs, out))
      else
        (case try_except tr [Reply NotMuted] UnmuteError of
           (effs, out) \<Rightarrow> (s, effs, out)))"

text \<open>The branch of \<open>/unban\<close> (lines 368-381).\<close>

definition cmd_unban :: "transport \<Rightarrow> user_id \<Rightarrow> registry \<Rightarrow> result" where
  "cmd_unban tr user_id s =
     (if contains user_id (banned_users s) then
        (case try_except tr
                [SendMessage (User user_id) UnbanNotice, Reply UnbanConfirm]
                UnbanError of
           (effs, out) \<Rightarrow>
             (s\<lparr>banned_users := AList.delete user_id (banned_users s)\<rparr>, effs, out))
      else
        (case try_except tr [Reply NotBanned] UnbanError of
           (effs, out) \<Rightarrow> (s, effs, out)))"

text \<open>
  \<open>handle_admin_commands\<close> (lines 277-388). The filters of the handler promise a
  replied-to message and a text; without them the attribute access raises.
\<close>

definition handle_admin_commands ::
  "transport \<Rightarrow> time \<Rightarrow> message \<Rightarrow> registry \<Rightarrow> result" where
  "handle_admin_commands tr now message s =
     (case reply_to_message message of
        None \<Rightarrow> (s, [], Raised AttributeError)
      | Some replied \<Rightarrow>
          (case extract_user_id replied of
             Inl err \<Rightarrow>
               (case perform tr (Reply (AdminExtractError err)) of
                  (effs, out) \<Rightarrow> (s, effs, out))
           | Inr user_id \<Rightarrow>
               (case msg_text message of
                  None \<Rightarrow> (s, [], Raised AttributeError)
                | Some t \<Rightarrow>
                    (let command_parts = split_maxsplit1 (strip t) in
                     case command_parts of
                       [] \<Rightarrow> (s, [], Raised IndexError)
                     | first # _ \<Rightarrow>
                         (let command = lower first in
                          if command = ascii ''/ban'' then cmd_ban tr user_id command_parts s
                          else if command = ascii ''/mute'' then
                            cmd_mute tr now user_id command_parts s
                          else if command = ascii ''/unmute'' then cmd_unmute tr user_id s
                          else if command = ascii ''/unban'' then cmd_unban tr user_id s
                          else
                            (case perform tr (Reply UnknownCommand) of
                               (effs, out) \<Rightarrow> (s, effs, out)))))))"

section \<open>Notions used in the statements\<close>

text \<open>
  What \<open>handle_admin_commands\<close> reads from a command message before it looks at the
  command word (lines 279-285): the target user and \<open>command_parts\<close>.
\<close>

definition admin_command :: "message \<Rightarrow> (user_id \<times> pystr list) option" where
  "admin_command message =
     (case reply_to_message message of
        None \<Rightarrow> None
      | Some replied \<Rightarrow>
          (case extract_user_id replied of
             Inl err \<Rightarrow> None
           | Inr user_id \<Rightarrow>
               (case msg_text message of
                  None \<Rightarrow> None
                | Some t \<Rightarrow> Some (user_id, split_maxsplit1 (strip t)))))"

text \<open>The mute records that have expired at a time, and those that have not.\<close>

definition expired_records ::
  "time \<Rightarrow> (user_id \<times> (time \<times> pystr)) list \<Rightarrow> (user_id \<times> (time \<times> pystr)) list" where
  "expired_records now d = filter (\<lambda>(user_id, (unmute_time, reason)). unmute_time \<le> now) d"

definition live_records ::
  "time \<Rightarrow> (user_id \<times> (time \<times> pystr)) list \<Rightarrow> (user_id \<times> (time \<times> pystr)) list" where
  "live_records now d = filter (\<lambda>(user_id, (unmute_time, reason)). now < unmute_time) d"

text \<open>The registry without the mute record of a user.\<close>

definition without_mute :: "user_id \<Rightarrow> registry \<Rightarrow> registry" where
  "without_mute user_id s = s\<lparr>muted_users := AList.delete user_id (muted_users s)\<rparr>"

text \<open>
  The number a matched token stands for, and whether the token has no more digits than
  \<open>int\<close> converts.
\<close>

definition token_value :: "nat list option \<Rightarrow> nat option" where
  "token_value token = map_option digits_value token"

definition token_within_limit :: "nat list option \<Rightarrow> bool" where
  "token_within_limit token =
     (case token of None \<Rightarrow> True | Some ds \<Rightarrow> length ds \<le> int_max_str_digits)"

text \<open>The display of the tokens the parser found, hours before minutes.\<close>

definition tokens_display :: "nat option \<Rightarrow> nat option \<Rightarrow> pystr" where
  "tokens_display hours_match minutes_match =
     join_space
       ((case hours_match of None \<Rightarrow> [] | Some h \<Rightarrow> [str_int (int h) @ [che]]) @
        (case minutes_match of None \<Rightarrow> [] | Some m \<Rightarrow> [str_int (int m) @ [em]]))"

definition tokens_minutes :: "nat option \<Rightarrow> nat option \<Rightarrow> int" where
  "tokens_minutes hours_match minutes_match =
     (case hours_match of None \<Rightarrow> 0 | Some h \<Rightarrow> int h * 60) +
     (case minutes_match of None \<Rightarrow> 0 | Some m \<Rightarrow> int m)"

subsection \<open>Sample data\<close>

definition never_fails :: transport where
  "never_fails = (\<lambda>e. None)"

definition always_fails :: "pystr \<Rightarrow> transport" where
  "always_fails err = (\<lambda>e. Some err)"

text \<open>A command sent in the group as a reply to a forwarded message.\<close>

definition command_message :: "pystr \<Rightarrow> pystr \<Rightarrow> message" where
  "command_message t replied_text =
     Message 1 [] (Some t) None (Some (Message 0 [] (Some replied_text) None None))"

definition sample_chat :: "user_id \<Rightarrow> chat" where
  "sample_chat u = \<lparr>chat_id = u, first_name = Some [65], last_name = None, username = None\<rparr>"

section \<open>Facts about the model\<close>

subsection \<open>Evaluation rules\<close>

named_theorems eval_defs

lemmas [eval_defs] =
  ascii_def che_def em_def decimal_def nd_zeros_def isspace_def unicode_spaces_def
  strip_def split_maxsplit1_def lower_def str_int_def nat_digits.simps digits_value_def
  to_ascii_def c_isspace_def digit_or_underscore_def py_int_def parse_duration_def
  duration_parts_def int_of_digits_def int_max_str_digits_def token_value_def
  token_within_limit_def
  one_hour_display_def one_hour_def contains_def timedelta_minutes_def is_user_muted_def
  is_user_banned_def perform_def try_except_def expired_users_def sweep_cycle_def
  user_link_def extract_user_id_def get_name_def restricted_reply_def
  send_message_to_group_def supported_media_def get_user_info_def cmd_ban_def
  mute_duration_def mute_args_def cmd_mute_def cmd_unmute_def cmd_unban_def
  handle_admin_commands_def admin_command_def expired_records_def live_records_def
  without_mute_def tokens_display_def tokens_minutes_def never_fails_def always_fails_def
  command_message_def sample_chat_def

subsection \<open>The sweeper\<close>

lemma unmute_expired_all:
  fixes s :: registry
  shows "distinct us \<Longrightarrow> set us \<subseteq> fst ` set (muted_users s) \<Longrightarrow>
   unmute_expired us s =
     (s\<lparr>muted_users := filter (\<lambda>(k, v). k \<notin> set us) (muted_users s)\<rparr>,
      map (\<lambda>u. SendMessage (User u) AutoUnmuteNotice) us, True)"
proof (induction us arbitrary: s)
  case Nil
  then show ?case by simp
next
  case (Cons u us)
  let ?s1 = "s\<lparr>muted_users := AList.delete u (muted_users s)\<rparr>"
  from Cons.prems have u: "contains u (muted_users s)" and d: "distinct us" and n: "u \<notin> set us"
    by (auto simp: contains_def)
  have sub: "set us \<subseteq> fst ` set (muted_users ?s1)"
  proof
    fix x assume x: "x \<in> set us"
    with Cons.prems obtain v where "(x, v) \<in> set (muted_users s)" by force
    moreover from x n have "x \<noteq> u" by blast
    ultimately have "(x, v) \<in> set (AList.delete u (muted_users s))"
      by (auto simp: AList.delete_eq)
    then show "x \<in> fst ` set (muted_users ?s1)" by force
  qed
  have f: "filter (\<lambda>(k, v). k \<notin> set us) (AList.delete u (muted_users s))
         = filter (\<lambda>(k, v). k \<notin> set (u # us)) (muted_users s)"
    by (auto simp: AList.delete_eq intro: filter_cong)
  show ?case
    using Cons.IH [OF d sub] u f by simp
qed

lemma expired_users_filter:
  assumes "distinct (map fst d)"
  shows "filter (\<lambda>(k, v). k \<notin> set (expired_users now d)) d = live_records now d"
  unfolding live_records_def
proof (rule filter_cong [OF refl])
  fix x assume x: "x \<in> set d"
  obtain k t r where xe: "x = (k, (t, r))" by (cases x) auto
  have "k \<in> set (expired_users now d) \<longleftrightarrow> t \<le> now"
  proof
    assume "k \<in> set (expired_users now d)"
    then obtain t' r' where m: "(k, (t', r')) \<in> set d" and e: "t' \<le> now"
      by (auto simp: expired_users_def)
    from eq_key_imp_eq_value [OF assms m] x xe have "(t', r') = (t, r)" by blast
    with e show "t \<le> now" by simp
  next
    assume "t \<le> now"
    with x xe show "k \<in> set (expired_users now d)"
      by (force simp: expired_users_def)
  qed
  then show "(case x of (k, v) \<Rightarrow> k \<notin> set (expired_users now d))
           = (case x of (k, t, r) \<Rightarrow> now < t)"
    by (auto simp: xe)
qed

lemma distinct_expired_users: "distinct (map fst d) \<Longrightarrow> distinct (expired_users now d)"
  by (simp add: expired_users_def distinct_map_filter)

lemma expired_users_keys: "set (expired_users now d) \<subseteq> fst ` set d"
  by (auto simp: expired_users_def)

lemma expired_users_records: "expired_users now d = map fst (expired_records now d)"
  by (simp add: expired_users_def expired_records_def)

lemma sweep_cycle_eq:
  assumes "distinct (map fst (muted_users s))"
  shows "sweep_cycle now s =
           (s\<lparr>muted_users := live_records now (muted_users s)\<rparr>,
            map (\<lambda>u. SendMessage (User u) AutoUnmuteNotice) (expired_users now (muted_users s))
              @ [Sleep 60])"
proof -
  let ?us = "expired_users now (muted_users s)"
  have "distinct ?us" by (rule distinct_expired_users [OF assms])
  moreover have "set ?us \<subseteq> fst ` set (muted_users s)" by (rule expired_users_keys)
  ultimately have "unmute_expired ?us s =
     (s\<lparr>muted_users := filter (\<lambda>(k, v). k \<notin> set ?us) (muted_users s)\<rparr>,
      map (\<lambda>u. SendMessage (User u) AutoUnmuteNotice) ?us, True)"
    by (rule unmute_expired_all)
  then show ?thesis
    by (simp add: sweep_cycle_def expired_users_filter [OF assms])
qed

lemma length_expired_live:
  "length d = length (expired_records now d) + length (live_records now d)"
  by (induction d) (auto simp: expired_records_def live_records_def)

lemma live_records_lookup:
  assumes "distinct (map fst d)" and "(u, (t, r)) \<in> set d" and "now < t"
  shows "map_of (live_records now d) u = Some (t, r)"
proof -
  have "distinct (map fst (live_records now d))"
    using assms(1) by (simp add: live_records_def distinct_map_filter)
  moreover have "(u, (t, r)) \<in> set (live_records now d)"
    using assms(2,3) by (simp add: live_records_def)
  ultimately show ?thesis by (rule map_of_is_SomeI)
qed

lemma expired_records_lookup:
  assumes "distinct (map fst d)" and "(u, (t, r)) \<in> set d" and "t \<le> now"
  shows "map_of (live_records now d) u = None"
proof (rule ccontr)
  assume "map_of (live_records now d) u \<noteq> None"
  then obtain v where "map_of (live_records now d) u = Some v" by blast
  then have "(u, v) \<in> set (live_records now d)" by (rule map_of_SomeD)
  then have m: "(u, v) \<in> set d" and l: "now < fst v"
    by (auto simp: live_records_def)
  from eq_key_imp_eq_value [OF assms(1) m assms(2)] l assms(3) show False by simp
qed

subsection \<open>The duration parser\<close>

lemma parse_duration_le: "parse_duration d = Inr (m, display) \<Longrightarrow> m \<le> 1440"
  by (auto simp: parse_duration_def split: if_splits sum.splits)

lemma parse_duration_clamp:
  "d \<noteq> [] \<Longrightarrow> duration_parts d = Inr (total_minutes, time_parts) \<Longrightarrow>
   parse_duration d
     = Inr (if total_minutes > 1440 then 1440 else total_minutes, join_space time_parts)"
  by (simp add: parse_duration_def min_def)

lemma duration_parts_within_limit:
  "token_within_limit (search_digits_before che d) \<Longrightarrow>
   token_within_limit (search_digits_before em d) \<Longrightarrow> \<not> isl (duration_parts d)"
  by (auto simp: duration_parts_def token_within_limit_def int_of_digits_def
           split: option.splits sum.splits)

lemma parse_duration_within_limit:
  "token_within_limit (search_digits_before che d) \<Longrightarrow>
   token_within_limit (search_digits_before em d) \<Longrightarrow> \<not> isl (parse_duration d)"
  using duration_parts_within_limit [of d]
  by (auto simp: parse_duration_def split: sum.splits)

subsection \<open>Reading numbers back from their display\<close>

lemma decimal_ascii_digit: "48 \<le> c \<Longrightarrow> c < 58 \<Longrightarrow> decimal c = Some (c - 48)"
  by (simp add: decimal_def nd_zeros_def)

lemma decimal_markers: "decimal che = None" "decimal em = None" "decimal 32 = None"
  by (simp_all add: decimal_def nd_zeros_def che_def em_def)

lemma nat_digits_range: "c \<in> set (nat_digits n) \<Longrightarrow> 48 \<le> c \<and> c < 58"
proof (induction n arbitrary: c rule: nat_digits.induct)
  case (1 n)
  show ?case
  proof (cases "n < 10")
    case True
    with "1.prems" show ?thesis by (simp add: nat_digits.simps [of n])
  next
    case False
    with "1.prems" "1.IH" show ?thesis
      by (auto simp: nat_digits.simps [of n])
  qed
qed

lemma nat_digits_nonempty: "nat_digits n \<noteq> []"
  by (simp add: nat_digits.simps [of n])

lemma digits_value_snoc: "digits_value (ds @ [d]) = 10 * digits_value ds + d"
  by (simp add: digits_value_def)

lemma digits_value_nat_digits: "digits_value (map (\<lambda>c. c - 48) (nat_digits n)) = n"
proof (induction n rule: nat_digits.induct)
  case (1 n)
  show ?case
  proof (cases "n < 10")
    case True
    then show ?thesis by (simp add: nat_digits.simps [of n] digits_value_def)
  next
    case False
    with "1.IH" show ?thesis
      by (simp add: nat_digits.simps [of n] digits_value_snoc)
  qed
qed

lemma span_digits_run:
  assumes "\<forall>c \<in> set cs. 48 \<le> c \<and> c < 58" and "decimal x = None"
  shows "span_digits (cs @ x # rest) = (map (\<lambda>c. c - 48) cs, x # rest)"
  using assms by (induction cs) (simp_all add: decimal_ascii_digit)

lemma search_skips_run:
  assumes "\<forall>c \<in> set cs. 48 \<le> c \<and> c < 58" and "decimal x = None" and "x \<noteq> m"
  shows "search_digits_before m (cs @ x # rest) = search_digits_before m rest"
  using assms
proof (induction cs)
  case Nil
  then show ?case by simp
next
  case (Cons c cs)
  then have "span_digits ((c # cs) @ x # rest) = (map (\<lambda>c. c - 48) (c # cs), x # rest)"
    by (intro span_digits_run) auto
  with Cons show ?case by simp
qed

lemma search_finds_run:
  assumes "\<forall>c \<in> set cs. 48 \<le> c \<and> c < 58" and "decimal m = None" and "cs \<noteq> []"
  shows "search_digits_before m (cs @ m # rest) = Some (map (\<lambda>c. c - 48) cs)"
proof -
  obtain c cs' where cs: "cs = c # cs'" using assms(3) by (cases cs) auto
  have "span_digits (cs @ m # rest) = (map (\<lambda>c. c - 48) cs, m # rest)"
    using assms(1,2) by (rule span_digits_run)
  then show ?thesis by (simp add: cs)
qed

lemma search_token:
  "token_value (search_digits_before m (nat_digits n @ m # rest)) = Some n"
  if "decimal m = None"
  using search_finds_run [of "nat_digits n" m rest] that nat_digits_range nat_digits_nonempty
  by (simp add: digits_value_nat_digits token_value_def)

lemma token_value_None: "token_value None = None"
  by (simp add: token_value_def)

lemma digits_value_leading_zeros: "digits_value (replicate n 0 @ ds) = digits_value ds"
  by (induction n) (simp_all add: digits_value_def)

lemma search_other_token:
  "search_digits_before m (nat_digits n @ x # rest) = search_digits_before m rest"
  if "decimal x = None" "x \<noteq> m"
  using search_skips_run [of "nat_digits n" x m rest] that nat_digits_range by simp

lemma search_space: "search_digits_before m (32 # rest) = search_digits_before m rest"
  by (simp add: decimal_markers)

lemma tokens_display_read_back:
  "token_value (search_digits_before che (tokens_display hm mm)) = hm
   \<and> token_value (search_digits_before em (tokens_display hm mm)) = mm"
proof -
  have ne: "che \<noteq> em" "em \<noteq> che" by (simp_all add: che_def em_def)
  show ?thesis
    by (cases hm; cases mm)
       (simp_all add: tokens_display_def str_int_def search_token search_other_token
          search_space decimal_markers token_value_None ne)
qed

subsection \<open>The command handler\<close>

lemma command_words_distinct:
  "ascii ''/mute'' \<noteq> ascii ''/ban''" "ascii ''/unmute'' \<noteq> ascii ''/ban''"
  "ascii ''/unmute'' \<noteq> ascii ''/mute''" "ascii ''/unban'' \<noteq> ascii ''/ban''"
  "ascii ''/unban'' \<noteq> ascii ''/mute''" "ascii ''/unban'' \<noteq> ascii ''/unmute''"
  by (simp_all add: ascii_def)

lemma dispatch_ban:
  assumes "admin_command message = Some (uid, first # rest)" and "lower first = ascii ''/ban''"
  shows "handle_admin_commands tr now message s = cmd_ban tr uid (first # rest) s"
  using assms
  by (auto simp: handle_admin_commands_def admin_command_def split: option.splits sum.splits)

lemma dispatch_mute:
  assumes "admin_command message = Some (uid, first # rest)" and "lower first = ascii ''/mute''"
  shows "handle_admin_commands tr now message s = cmd_mute tr now uid (first # rest) s"
  using assms
  by (auto simp: handle_admin_commands_def admin_command_def command_words_distinct
           split: option.splits sum.splits)

lemma dispatch_unmute:
  assumes "admin_command message = Some (uid, first # rest)"
    and "lower first = ascii ''/unmute''"
  shows "handle_admin_commands tr now message s = cmd_unmute tr uid s"
  using assms
  by (auto simp: handle_admin_commands_def admin_command_def command_words_distinct
           split: option.splits sum.splits)

lemma dispatch_unban:
  assumes "admin_command message = Some (uid, first # rest)"
    and "lower first = ascii ''/unban''"
  shows "handle_admin_commands tr now message s = cmd_unban tr uid s"
  using assms
  by (auto simp: handle_admin_commands_def admin_command_def command_words_distinct
           split: option.splits sum.splits)

lemma delete_absent: "\<not> contains k d \<Longrightarrow> AList.delete k d = d"
  by (simp add: contains_def)

lemma contains_map_of: "contains k d \<longleftrightarrow> map_of d k \<noteq> None"
  by (simp add: contains_def map_of_eq_None_iff)

lemma contains_delete: "\<not> contains k (AList.delete k d)"
  by (simp add: contains_def delete_keys)

lemma cmd_ban_registry:
  "fst (cmd_ban tr uid (first # rest) s) =
     s\<lparr>banned_users :=
          AList.update uid (if rest = [] then default_ban_reason else strip (hd rest))
            (banned_users s),
        muted_users := AList.delete uid (muted_users s)\<rparr>"
  by (cases rest) (auto simp: cmd_ban_def Let_def delete_absent split: prod.splits)

lemma cmd_mute_registry:
  "fst (cmd_mute tr now uid parts s) =
     (if contains uid (banned_users s) then s
      else case mute_args parts of
             None \<Rightarrow> s
           | Some (d, reason) \<Rightarrow>
               (case mute_duration d of
                  Inl e \<Rightarrow> s
                | Inr (total_minutes, time_display) \<Rightarrow>
                    s\<lparr>muted_users :=
                         AList.update uid (now + timedelta_minutes total_minutes, reason)
                           (muted_users s)\<rparr>))"
  by (auto simp: cmd_mute_def Let_def split: prod.splits option.splits sum.splits)

lemma cmd_unmute_registry: "fst (cmd_unmute tr uid s) = without_mute uid s"
  by (auto simp: cmd_unmute_def without_mute_def delete_absent split: prod.splits)

lemma cmd_unban_registry:
  "fst (cmd_unban tr uid s) = s\<lparr>banned_users := AList.delete uid (banned_users s)\<rparr>"
  by (auto simp: cmd_unban_def delete_absent split: prod.splits)

lemma handler_registry_any_transport:
  "fst (handle_admin_commands tr now message s) = fst (handle_admin_commands tr' now message s)"
  by (simp add: handle_admin_commands_def Let_def perform_def cmd_ban_registry
        cmd_mute_registry cmd_unmute_registry cmd_unban_registry
      split: option.splits list.splits sum.splits)

lemma try_except_first_fails:
  "tr a = Some err \<Longrightarrow>
   try_except tr (a # body) h =
     ([a, Reply (h err)],
      case tr (Reply (h err)) of None \<Rightarrow> Returned | Some e \<Rightarrow> Raised (TelegramAPIError e))"
  by (simp add: try_except_def perform_def)

lemma try_except_single:
  "try_except tr [a] h =
     (a # (case tr a of None \<Rightarrow> [] | Some err \<Rightarrow> [Reply (h err)]),
      case tr a of
        None \<Rightarrow> Returned
      | Some err \<Rightarrow>
          (case tr (Reply (h err)) of None \<Rightarrow> Returned | Some e \<Rightarrow> Raised (TelegramAPIError e)))"
  by (simp add: try_except_def perform_def split: option.splits)

lemma try_except_pair:
  "try_except tr [a, b] h =
     (case tr a of
        Some err \<Rightarrow>
          ([a, Reply (h err)],
           case tr (Reply (h err)) of None \<Rightarrow> Returned | Some e \<Rightarrow> Raised (TelegramAPIError e))
      | None \<Rightarrow>
          (case tr b of
             Some err \<Rightarrow>
               ([a, b, Reply (h err)],
                case tr (Reply (h err)) of
                  None \<Rightarrow> Returned
                | Some e \<Rightarrow> Raised (TelegramAPIError e))
           | None \<Rightarrow> ([a, b], Returned)))"
  by (simp add: try_except_def perform_def split: option.splits)

section \<open>The claims\<close>

text \<open>
  C1. \<open>is_user_muted\<close> answers true exactly when the user has a mute record and the
  current time is strictly before its unmute time; when the record exists and has
  expired, the call removes it from the mute registry and answers false.
\<close>

theorem is_user_muted_iff:
  "(fst (is_user_muted now u s) \<longleftrightarrow>
      (\<exists>t r. map_of (muted_users s) u = Some (t, r) \<and> now < t))
   \<and> (\<forall>t r. map_of (muted_users s) u = Some (t, r) \<and> \<not> now < t \<longrightarrow>
         is_user_muted now u s = (False, without_mute u s)
         \<and> map_of (muted_users (snd (is_user_muted now u s))) u = None
         \<and> \<not> contains u (muted_users (snd (is_user_muted now u s))))"
  by (auto simp: is_user_muted_def without_mute_def contains_def delete_conv' delete_keys
           split: option.splits)

theorem is_user_muted_iff_witness:
  "map_of (muted_users \<lparr>muted_users = [(7, (50, [120]))], banned_users = []\<rparr>) 7
     = Some (50, [120])
   \<and> \<not> (100 :: int) < 50
   \<and> is_user_muted 100 7 \<lparr>muted_users = [(7, (50, [120]))], banned_users = []\<rparr>
       = (False, \<lparr>muted_users = [], banned_users = []\<rparr>)
   \<and> fst (is_user_muted 40 7 \<lparr>muted_users = [(7, (50, [120]))], banned_users = []\<rparr>)"
  using is_user_muted_iff [of 100 7 "\<lparr>muted_users = [(7, (50, [120]))], banned_users = []\<rparr>"]
    is_user_muted_iff [of 40 7 "\<lparr>muted_users = [(7, (50, [120]))], banned_users = []\<rparr>"]
  by (simp add: without_mute_def)

text \<open>
  C2. Whatever the registry was, the ban command stores a ban record with the given
  reason (the default reason when none is given) and removes the mute record of the
  user; right afterwards \<open>is_user_muted\<close> is false and \<open>is_user_banned\<close> is true.
\<close>

theorem ban_supersedes_mute:
  assumes "admin_command message = Some (uid, first # rest)"
    and "lower first = ascii ''/ban''"
  shows "map_of (banned_users (fst (handle_admin_commands tr now message s))) uid
           = Some (if rest = [] then default_ban_reason else strip (hd rest))
       \<and> map_of (muted_users (fst (handle_admin_commands tr now message s))) uid = None
       \<and> is_user_banned uid (fst (handle_admin_commands tr now message s))
       \<and> \<not> fst (is_user_muted later uid (fst (handle_admin_commands tr now message s)))"
  by (simp add: dispatch_ban [OF assms] cmd_ban_registry update_conv' delete_conv'
        is_user_banned_def is_user_muted_def contains_map_of)

theorem ban_supersedes_mute_witness:
  "admin_command (command_message (ascii ''/Ban  spam here '') (ascii ''id tg://user?id=42 x''))
     = Some (42, [ascii ''/Ban'', ascii ''spam here''])
   \<and> lower (ascii ''/Ban'') = ascii ''/ban''
   \<and> map_of (banned_users (fst (handle_admin_commands never_fails 100
        (command_message (ascii ''/Ban  spam here '') (ascii ''id tg://user?id=42 x''))
        \<lparr>muted_users = [(42, (500, [120]))], banned_users = []\<rparr>))) 42
     = Some (ascii ''spam here'')
   \<and> map_of (muted_users (fst (handle_admin_commands never_fails 100
        (command_message (ascii ''/Ban  spam here '') (ascii ''id tg://user?id=42 x''))
        \<lparr>muted_users = [(42, (500, [120]))], banned_users = []\<rparr>))) 42 = None"
proof -
  have c: "admin_command
             (command_message (ascii ''/Ban  spam here '') (ascii ''id tg://user?id=42 x''))
           = Some (42, [ascii ''/Ban'', ascii ''spam here''])"
    by (simp add: eval_defs)
  have l: "lower (ascii ''/Ban'') = ascii ''/ban''"
    by (simp add: eval_defs)
  have s: "strip (ascii ''spam here'') = ascii ''spam here''"
    by (simp add: eval_defs)
  show ?thesis
    using c l s ban_supersedes_mute [OF c l, of never_fails 100
        "\<lparr>muted_users = [(42, (500, [120]))], banned_users = []\<rparr>" 100]
    by simp
qed

text \<open>
  C3. One sweep cycle over a mute registry with \<open>N\<close> records whose unmute time is at
  or before the current time and \<open>M\<close> records whose unmute time is later removes
  exactly the \<open>N\<close> expired records, leaves the \<open>M\<close> others as they are, and leaves the
  ban registry unchanged. The keys of the registry are distinct, as the keys of a
  dictionary are.
\<close>

theorem sweep_cycle_removes_expired:
  assumes "distinct (map fst (muted_users s))"
    and "length (expired_records now (muted_users s)) = N"
    and "length (live_records now (muted_users s)) = M"
  shows "muted_users (fst (sweep_cycle now s)) = live_records now (muted_users s)
       \<and> length (muted_users (fst (sweep_cycle now s))) = M
       \<and> length (muted_users s) = N + length (muted_users (fst (sweep_cycle now s)))
       \<and> banned_users (fst (sweep_cycle now s)) = banned_users s
       \<and> (\<forall>(u, t, r) \<in> set (muted_users s).
            map_of (muted_users (fst (sweep_cycle now s))) u
              = (if now < t then Some (t, r) else None))"
proof -
  have m: "muted_users (fst (sweep_cycle now s)) = live_records now (muted_users s)"
    and b: "banned_users (fst (sweep_cycle now s)) = banned_users s"
    by (simp_all add: sweep_cycle_eq [OF assms(1)])
  have l: "length (muted_users s) = N + length (live_records now (muted_users s))"
    using length_expired_live [of "muted_users s" now] assms(2) by simp
  have r: "\<forall>(u, t, r) \<in> set (muted_users s).
             map_of (live_records now (muted_users s)) u
               = (if now < t then Some (t, r) else None)"
    using live_records_lookup [OF assms(1)] expired_records_lookup [OF assms(1)]
    by (auto simp: not_less)
  show ?thesis
    using m b l r assms(3) by simp
qed

theorem sweep_cycle_removes_expired_witness:
  "distinct (map fst [(7 :: int, (50 :: int, [120 :: nat])), (8, (150, [121])), (9, (100, []))])
   \<and> sweep_cycle 100
        \<lparr>muted_users = [(7, (50, [120])), (8, (150, [121])), (9, (100, []))],
         banned_users = [(3, [122])]\<rparr>
     = (\<lparr>muted_users = [(8, (150, [121]))], banned_users = [(3, [122])]\<rparr>,
        [SendMessage (User 7) AutoUnmuteNotice, SendMessage (User 9) AutoUnmuteNotice,
         Sleep 60])
   \<and> length (muted_users (fst (sweep_cycle 100
        \<lparr>muted_users = [(7, (50, [120])), (8, (150, [121])), (9, (100, []))],
         banned_users = [(3, [122])]\<rparr>))) = 1"
  using sweep_cycle_removes_expired
    [of "\<lparr>muted_users = [(7, (50, [120])), (8, (150, [121])), (9, (100, []))],
          banned_users = [(3, [122])]\<rparr>" 100 2 1]
  by (simp add: expired_records_def live_records_def sweep_cycle_def expired_users_def
        contains_def)

text \<open>
  C4, as the code has it. For every input string whose hours token and minutes token
  have no more digits than \<open>int\<close> converts, the parser returns normally, with a minute
  count of at most 1440: a total above 1440 is clamped to 1440, any other total is
  returned as it is. The parser does not replace a count that is zero or negative: the
  mute command does, after parsing, so the duration the command applies lies between
  1 and 1440 minutes, and is the parser's result whenever that is positive.
\<close>

theorem parse_duration_bounds:
  "(token_within_limit (search_digits_before che d)
      \<and> token_within_limit (search_digits_before em d) \<longrightarrow> \<not> isl (parse_duration d))
   \<and> (\<forall>total_minutes time_parts.
         d \<noteq> [] \<and> duration_parts d = Inr (total_minutes, time_parts) \<longrightarrow>
           parse_duration d
             = Inr (if total_minutes > 1440 then 1440 else total_minutes,
                    join_space time_parts))
   \<and> (\<forall>m display.
         parse_duration d = Inr (m, display) \<longrightarrow>
           m \<le> 1440
           \<and> mute_duration d = Inr (if m \<le> 0 then (60, one_hour) else (m, display)))
   \<and> (\<forall>m display. mute_duration d = Inr (m, display) \<longrightarrow> 1 \<le> m \<and> m \<le> 1440)"
proof -
  have returns: "token_within_limit (search_digits_before che d)
      \<and> token_within_limit (search_digits_before em d) \<longrightarrow> \<not> isl (parse_duration d)"
    using parse_duration_within_limit [of d] by blast
  have clamp: "\<forall>total_minutes time_parts.
         d \<noteq> [] \<and> duration_parts d = Inr (total_minutes, time_parts) \<longrightarrow>
           parse_duration d
             = Inr (if total_minutes > 1440 then 1440 else total_minutes,
                    join_space time_parts)"
    using parse_duration_clamp [of d] by blast
  have guard: "\<forall>m display.
         parse_duration d = Inr (m, display) \<longrightarrow>
           m \<le> 1440
           \<and> mute_duration d = Inr (if m \<le> 0 then (60, one_hour) else (m, display))"
    using parse_duration_le [of d] by (simp add: mute_duration_def)
  have range: "\<forall>m display. mute_duration d = Inr (m, display) \<longrightarrow> 1 \<le> m \<and> m \<le> 1440"
  proof (intro allI impI)
    fix m display
    assume a: "mute_duration d = Inr (m, display)"
    then obtain m' display' where p: "parse_duration d = Inr (m', display')"
      by (auto simp: mute_duration_def split: sum.splits)
    from parse_duration_le [OF p] a p show "1 \<le> m \<and> m \<le> 1440"
      by (auto simp: mute_duration_def split: if_splits)
  qed
  from returns clamp guard range show ?thesis by blast
qed

theorem parse_duration_bounds_witness:
  "token_within_limit (search_digits_before che (ascii ''25''))
   \<and> token_within_limit (search_digits_before em (ascii ''25''))
   \<and> duration_parts (ascii ''25'') = Inr (1500, [[50, 53, 1095]])
   \<and> parse_duration (ascii ''25'') = Inr (1440, [50, 53, 1095])
   \<and> mute_duration (ascii ''25'') = Inr (1440, [50, 53, 1095])
   \<and> parse_duration (ascii ''-5'') = Inr (- 300, [45, 53, 1095])
   \<and> mute_duration (ascii ''-5'') = Inr (60, [49, 1095])"
proof -
  have h: "token_within_limit (search_digits_before che (ascii ''25''))"
    and m: "token_within_limit (search_digits_before em (ascii ''25''))"
    and n: "ascii ''25'' \<noteq> []"
    and p: "duration_parts (ascii ''25'') = Inr (1500, [[50, 53, 1095]])"
    and q: "parse_duration (ascii ''-5'') = Inr (- 300, [45, 53, 1095])"
    by (simp_all add: eval_defs)
  show ?thesis
    using h m n p q parse_duration_bounds [of "ascii ''25''"]
      parse_duration_bounds [of "ascii ''-5''"]
    by (simp add: one_hour_def che_def)
qed

text \<open>
  C4, as stated, fails: on the bare integer \<open>0\<close> the parser returns the minute count
  0 (with the display of zero hours), which is below 1; and on an hours token of 4301
  digits it does not return, the conversion of the token raising \<open>ValueError\<close>.
\<close>

theorem parse_duration_zero_counterexample:
  "parse_duration (ascii ''0'') = Inr (0, [48, 1095])
   \<and> \<not> (1 \<le> (0 :: int))
   \<and> parse_duration (replicate 4301 49 @ [che]) = Inl DigitLimit"
proof -
  have z: "parse_duration (ascii ''0'') = Inr (0, [48, 1095])"
    by (simp add: eval_defs)
  have g: "search_digits_before che (replicate 4301 49 @ [che])
             = Some (map (\<lambda>c. c - 48) (replicate 4301 49))"
    by (rule search_finds_run) (simp_all add: decimal_markers)
  have ne: "replicate 4301 (49 :: nat) @ [che] \<noteq> []"
    by simp
  have l: "parse_duration (replicate 4301 49 @ [che]) = Inl DigitLimit"
    unfolding parse_duration_def duration_parts_def g
    using ne by (simp add: int_of_digits_def int_max_str_digits_def)
  from z l show ?thesis by simp
qed

text \<open>
  C5, as the code has it. The sweeper starts in its scanning phase: in a run of the
  loop, everything before the first sleep is the first cycle's work, the notices to
  the users whose mute had expired at the first clock reading, whose records are gone
  from the registry by then; each 60-second sleep follows a scan.
\<close>

theorem sweeper_scans_first:
  assumes "distinct (map fst (muted_users s))"
  shows "snd (check_mute_expirations (now # later) s)
           = map (\<lambda>u. SendMessage (User u) AutoUnmuteNotice)
               (expired_users now (muted_users s))
             @ Sleep 60 # snd (check_mute_expirations later (fst (sweep_cycle now s)))
       \<and> muted_users (fst (sweep_cycle now s)) = live_records now (muted_users s)"
  by (simp add: sweep_cycle_eq [OF assms] split: prod.splits)

theorem sweeper_scans_first_witness:
  "distinct (map fst [(7 :: int, (50 :: int, [120 :: nat]))])
   \<and> snd (check_mute_expirations [100, 200]
            \<lparr>muted_users = [(7, (50, [120]))], banned_users = []\<rparr>)
     = [SendMessage (User 7) AutoUnmuteNotice, Sleep 60, Sleep 60]"
  using sweeper_scans_first
    [of "\<lparr>muted_users = [(7, (50, [120]))], banned_users = []\<rparr>" 100 "[200]"]
  by (simp add: expired_users_def live_records_def sweep_cycle_def contains_def)

text \<open>
  C5, as stated, fails: started on a registry with an expired mute, the loop evicts
  and notifies at once, and sleeps only afterwards.
\<close>

theorem sweeper_sleeps_first_counterexample:
  "check_mute_expirations [100] \<lparr>muted_users = [(7, (50, [120]))], banned_users = []\<rparr>
     = (\<lparr>muted_users = [], banned_users = []\<rparr>,
        [SendMessage (User 7) AutoUnmuteNotice, Sleep 60])
   \<and> hd (snd (check_mute_expirations [100]
             \<lparr>muted_users = [(7, (50, [120]))], banned_users = []\<rparr>)) \<noteq> Sleep 60"
  by (simp add: sweep_cycle_def expired_users_def contains_def)

text \<open>
  C6, as the code has it. A mute record whose unmute time is not in the future is
  treated as absent, and removed, by the mute-status check and by the info query
  (once the target is found and is not banned): both answer as they do on the registry
  without the record, and the info query reports no restriction. The unmute command
  does not look at the unmute time: it removes the record, notifies the target, and
  does not give the not-muted reply.
\<close>

theorem stale_mute_record_readers:
  assumes "map_of (muted_users s) uid = Some (t, r)" and "\<not> now < t"
  shows "is_user_muted now uid s = (False, without_mute uid s)
       \<and> is_user_muted now uid (without_mute uid s) = (False, without_mute uid s)
       \<and> (\<forall>replied.
            reply_to_message message = Some replied \<and> extract_user_id replied = Inr uid
            \<and> tr (GetChat uid) = None \<and> \<not> is_user_banned uid s \<longrightarrow>
              fst (get_user_info tr get_chat now now2 message s) = without_mute uid s
              \<and> snd (get_user_info tr get_chat now now2 message s)
                  = snd (get_user_info tr get_chat now now2 message (without_mute uid s))
              \<and> fst (snd (get_user_info tr get_chat now now2 message s))
                  = [GetChat uid,
                     Reply (InfoReply (get_name (get_chat uid)) (chat_id (get_chat uid))
                              (username (get_chat uid)) NoStatus)])
       \<and> (\<forall>first rest.
            admin_command command = Some (uid, first # rest)
            \<and> lower first = ascii ''/unmute'' \<longrightarrow>
              fst (handle_admin_commands tr now command s) = without_mute uid s
              \<and> hd (fst (snd (handle_admin_commands tr now command s)))
                  = SendMessage (User uid) UnmuteNotice
              \<and> Reply NotMuted \<notin> set (fst (snd (handle_admin_commands tr now command s))))"
proof -
  have gone: "map_of (muted_users (without_mute uid s)) uid = None"
    by (simp add: without_mute_def delete_conv')
  have check: "is_user_muted now uid s = (False, without_mute uid s)"
    using assms by (simp add: is_user_muted_def without_mute_def)
  have again: "is_user_muted now uid (without_mute uid s) = (False, without_mute uid s)"
    using gone by (simp add: is_user_muted_def)
  have info: "\<forall>replied.
            reply_to_message message = Some replied \<and> extract_user_id replied = Inr uid
            \<and> tr (GetChat uid) = None \<and> \<not> is_user_banned uid s \<longrightarrow>
              fst (get_user_info tr get_chat now now2 message s) = without_mute uid s
              \<and> snd (get_user_info tr get_chat now now2 message s)
                  = snd (get_user_info tr get_chat now now2 message (without_mute uid s))
              \<and> fst (snd (get_user_info tr get_chat now now2 message s))
                  = [GetChat uid,
                     Reply (InfoReply (get_name (get_chat uid)) (chat_id (get_chat uid))
                              (username (get_chat uid)) NoStatus)]"
  proof (intro allI impI)
    fix replied
    assume a: "reply_to_message message = Some replied \<and> extract_user_id replied = Inr uid
            \<and> tr (GetChat uid) = None \<and> \<not> is_user_banned uid s"
    then have nb: "map_of (banned_users s) uid = None"
      by (simp add: is_user_banned_def contains_map_of)
    have nb': "map_of (banned_users (without_mute uid s)) uid = None"
      using nb by (simp add: without_mute_def)
    show "fst (get_user_info tr get_chat now now2 message s) = without_mute uid s
              \<and> snd (get_user_info tr get_chat now now2 message s)
                  = snd (get_user_info tr get_chat now now2 message (without_mute uid s))
              \<and> fst (snd (get_user_info tr get_chat now now2 message s))
                  = [GetChat uid,
                     Reply (InfoReply (get_name (get_chat uid)) (chat_id (get_chat uid))
                              (username (get_chat uid)) NoStatus)]"
      using a assms nb nb' gone
      by (simp add: get_user_info_def perform_def Let_def)
         (simp add: without_mute_def)
  qed
  have unmute: "\<forall>first rest.
            admin_command command = Some (uid, first # rest)
            \<and> lower first = ascii ''/unmute'' \<longrightarrow>
              fst (handle_admin_commands tr now command s) = without_mute uid s
              \<and> hd (fst (snd (handle_admin_commands tr now command s)))
                  = SendMessage (User uid) UnmuteNotice
              \<and> Reply NotMuted \<notin> set (fst (snd (handle_admin_commands tr now command s)))"
  proof (intro allI impI)
    fix first rest
    assume a: "admin_command command = Some (uid, first # rest)
            \<and> lower first = ascii ''/unmute''"
    then have c: "admin_command command = Some (uid, first # rest)"
      and l: "lower first = ascii ''/unmute''"
      by simp_all
    have m: "contains uid (muted_users s)"
      using assms(1) by (simp add: contains_map_of)
    show "fst (handle_admin_commands tr now command s) = without_mute uid s
              \<and> hd (fst (snd (handle_admin_commands tr now command s)))
                  = SendMessage (User uid) UnmuteNotice
              \<and> Reply NotMuted \<notin> set (fst (snd (handle_admin_commands tr now command s)))"
      by (simp add: dispatch_unmute [OF c l] cmd_unmute_def m try_except_pair without_mute_def
          split: option.splits)
  qed
  from check again info unmute show ?thesis by blast
qed

theorem stale_mute_record_readers_witness:
  "map_of (muted_users \<lparr>muted_users = [(7, (50, [120]))], banned_users = []\<rparr>) 7
     = Some (50, [120])
   \<and> \<not> (100 :: int) < 50
   \<and> is_user_muted 100 7 \<lparr>muted_users = [(7, (50, [120]))], banned_users = []\<rparr>
       = (False, \<lparr>muted_users = [], banned_users = []\<rparr>)
   \<and> get_user_info never_fails sample_chat 100 100
        (command_message (ascii ''/info'') (ascii ''tg://user?id=7''))
        \<lparr>muted_users = [(7, (50, [120]))], banned_users = []\<rparr>
       = (\<lparr>muted_users = [], banned_users = []\<rparr>,
          [GetChat 7, Reply (InfoReply [65] 7 None NoStatus)], Returned)
   \<and> fst (handle_admin_commands never_fails 100
        (command_message (ascii ''/unmute'') (ascii ''tg://user?id=7''))
        \<lparr>muted_users = [(7, (50, [120]))], banned_users = []\<rparr>)
       = \<lparr>muted_users = [], banned_users = []\<rparr>"
proof -
  have m: "map_of (muted_users \<lparr>muted_users = [(7, (50, [120]))], banned_users = []\<rparr>) 7
             = Some (50, [120])"
    by simp
  have e: "\<not> (100 :: int) < 50"
    by simp
  show ?thesis
    using m stale_mute_record_readers [OF m e, of
        "command_message (ascii ''/info'') (ascii ''tg://user?id=7'')" never_fails sample_chat
        100 "command_message (ascii ''/unmute'') (ascii ''tg://user?id=7'')"]
    by (simp add: eval_defs prod_eq_iff)
qed

text \<open>
  C6, as stated, fails for the unmute command: on a user whose only mute record has
  expired it notifies the target and confirms, where on a user without a record it
  gives the not-muted reply.
\<close>

theorem unmute_stale_record_counterexample:
  "\<not> (100 :: int) < 50
   \<and> handle_admin_commands never_fails 100
        (command_message (ascii ''/unmute'') (ascii ''tg://user?id=7''))
        \<lparr>muted_users = [(7, (50, [120]))], banned_users = []\<rparr>
       = (\<lparr>muted_users = [], banned_users = []\<rparr>,
          [SendMessage (User 7) UnmuteNotice, Reply UnmuteConfirm], Returned)
   \<and> handle_admin_commands never_fails 100
        (command_message (ascii ''/unmute'') (ascii ''tg://user?id=7''))
        \<lparr>muted_users = [], banned_users = []\<rparr>
       = (\<lparr>muted_users = [], banned_users = []\<rparr>, [Reply NotMuted], Returned)"
  by (simp add: eval_defs)

text \<open>
  C7. For each of the four admin commands, when the notification to the target user
  raises a transport error, the error is caught in that command and reported to the
  invoker with the command's error reply (the handler returns unless that reply
  raises itself), and the registry is the one the command leaves when the transport
  works: the mutation stays.
\<close>

theorem failed_notification_keeps_mutation:
  assumes "admin_command message = Some (uid, first # rest)"
    and "\<And>txt. tr (SendMessage (User uid) txt) = Some err"
  shows "fst (handle_admin_commands tr now message s)
           = fst (handle_admin_commands never_fails now message s)
       \<and> (lower first = ascii ''/ban'' \<longrightarrow>
            snd (handle_admin_commands tr now message s)
              = ([SendMessage (User uid)
                    (BanNotice (if rest = [] then default_ban_reason else strip (hd rest))),
                  Reply (BanError err)],
                 snd (perform tr (Reply (BanError err))))
            \<and> is_user_banned uid (fst (handle_admin_commands tr now message s)))
       \<and> (lower first = ascii ''/mute'' \<and> \<not> is_user_banned uid s \<longrightarrow>
            (\<forall>duration_str reason total_minutes time_display.
               mute_args (first # rest) = Some (duration_str, reason)
               \<and> mute_duration duration_str = Inr (total_minutes, time_display) \<longrightarrow>
               snd (handle_admin_commands tr now message s)
                 = ([SendMessage (User uid)
                       (MuteNotice time_display reason
                          (now + timedelta_minutes total_minutes)),
                     Reply (MuteError err)],
                    snd (perform tr (Reply (MuteError err))))
               \<and> map_of (muted_users (fst (handle_admin_commands tr now message s))) uid
                   = Some (now + timedelta_minutes total_minutes, reason)))
       \<and> (lower first = ascii ''/unmute'' \<and> contains uid (muted_users s) \<longrightarrow>
            snd (handle_admin_commands tr now message s)
              = ([SendMessage (User uid) UnmuteNotice, Reply (UnmuteError err)],
                 snd (perform tr (Reply (UnmuteError err))))
            \<and> \<not> contains uid (muted_users (fst (handle_admin_commands tr now message s))))
       \<and> (lower first = ascii ''/unban'' \<and> contains uid (banned_users s) \<longrightarrow>
            snd (handle_admin_commands tr now message s)
              = ([SendMessage (User uid) UnbanNotice, Reply (UnbanError err)],
                 snd (perform tr (Reply (UnbanError err))))
            \<and> \<not> is_user_banned uid (fst (handle_admin_commands tr now message s)))"
proof -
  have reg: "fst (handle_admin_commands tr now message s)
           = fst (handle_admin_commands never_fails now message s)"
    by (rule handler_registry_any_transport)
  have ban: "lower first = ascii ''/ban'' \<longrightarrow>
            snd (handle_admin_commands tr now message s)
              = ([SendMessage (User uid)
                    (BanNotice (if rest = [] then default_ban_reason else strip (hd rest))),
                  Reply (BanError err)],
                 snd (perform tr (Reply (BanError err))))
            \<and> is_user_banned uid (fst (handle_admin_commands tr now message s))"
  proof
    assume l: "lower first = ascii ''/ban''"
    have "snd (cmd_ban tr uid (first # rest) s)
            = ([SendMessage (User uid)
                  (BanNotice (if rest = [] then default_ban_reason else strip (hd rest))),
                Reply (BanError err)],
               snd (perform tr (Reply (BanError err))))"
      by (cases rest) (simp_all add: cmd_ban_def Let_def try_except_pair assms(2) perform_def)
    moreover have "is_user_banned uid (fst (cmd_ban tr uid (first # rest) s))"
      by (simp add: cmd_ban_registry is_user_banned_def contains_map_of update_conv')
    ultimately show "snd (handle_admin_commands tr now message s)
              = ([SendMessage (User uid)
                    (BanNotice (if rest = [] then default_ban_reason else strip (hd rest))),
                  Reply (BanError err)],
                 snd (perform tr (Reply (BanError err))))
            \<and> is_user_banned uid (fst (handle_admin_commands tr now message s))"
      by (simp add: dispatch_ban [OF assms(1) l])
  qed
  have mute: "lower first = ascii ''/mute'' \<and> \<not> is_user_banned uid s \<longrightarrow>
            (\<forall>duration_str reason total_minutes time_display.
               mute_args (first # rest) = Some (duration_str, reason)
               \<and> mute_duration duration_str = Inr (total_minutes, time_display) \<longrightarrow>
               snd (handle_admin_commands tr now message s)
                 = ([SendMessage (User uid)
                       (MuteNotice time_display reason
                          (now + timedelta_minutes total_minutes)),
                     Reply (MuteError err)],
                    snd (perform tr (Reply (MuteError err))))
               \<and> map_of (muted_users (fst (handle_admin_commands tr now message s))) uid
                   = Some (now + timedelta_minutes total_minutes, reason))"
  proof (intro impI allI)
    fix duration_str reason total_minutes time_display
    assume a: "lower first = ascii ''/mute'' \<and> \<not> is_user_banned uid s"
      and m: "mute_args (first # rest) = Some (duration_str, reason)
               \<and> mute_duration duration_str = Inr (total_minutes, time_display)"
    from a have l: "lower first = ascii ''/mute''"
      and nb: "\<not> contains uid (banned_users s)"
      by (simp_all add: is_user_banned_def)
    have "snd (cmd_mute tr now uid (first # rest) s)
            = ([SendMessage (User uid)
                  (MuteNotice time_display reason (now + timedelta_minutes total_minutes)),
                Reply (MuteError err)],
               snd (perform tr (Reply (MuteError err))))"
      using m by (simp add: cmd_mute_def nb Let_def try_except_pair assms(2) perform_def)
    moreover have "map_of (muted_users (fst (cmd_mute tr now uid (first # rest) s))) uid
            = Some (now + timedelta_minutes total_minutes, reason)"
      using m by (simp add: cmd_mute_registry nb update_conv')
    ultimately show "snd (handle_admin_commands tr now message s)
                 = ([SendMessage (User uid)
                       (MuteNotice time_display reason
                          (now + timedelta_minutes total_minutes)),
                     Reply (MuteError err)],
                    snd (perform tr (Reply (MuteError err))))
               \<and> map_of (muted_users (fst (handle_admin_commands tr now message s))) uid
                   = Some (now + timedelta_minutes total_minutes, reason)"
      by (simp add: dispatch_mute [OF assms(1) l])
  qed
  have unmute: "lower first = ascii ''/unmute'' \<and> contains uid (muted_users s) \<longrightarrow>
            snd (handle_admin_commands tr now message s)
              = ([SendMessage (User uid) UnmuteNotice, Reply (UnmuteError err)],
                 snd (perform tr (Reply (UnmuteError err))))
            \<and> \<not> contains uid (muted_users (fst (handle_admin_commands tr now message s)))"
  proof
    assume a: "lower first = ascii ''/unmute'' \<and> contains uid (muted_users s)"
    then have l: "lower first = ascii ''/unmute''" and c: "contains uid (muted_users s)"
      by simp_all
    show "snd (handle_admin_commands tr now message s)
              = ([SendMessage (User uid) UnmuteNotice, Reply (UnmuteError err)],
                 snd (perform tr (Reply (UnmuteError err))))
            \<and> \<not> contains uid (muted_users (fst (handle_admin_commands tr now message s)))"
      by (simp add: dispatch_unmute [OF assms(1) l] cmd_unmute_def c try_except_pair assms(2)
            perform_def contains_delete)
  qed
  have unban: "lower first = ascii ''/unban'' \<and> contains uid (banned_users s) \<longrightarrow>
            snd (handle_admin_commands tr now message s)
              = ([SendMessage (User uid) UnbanNotice, Reply (UnbanError err)],
                 snd (perform tr (Reply (UnbanError err))))
            \<and> \<not> is_user_banned uid (fst (handle_admin_commands tr now message s))"
  proof
    assume a: "lower first = ascii ''/unban'' \<and> contains uid (banned_users s)"
    then have l: "lower first = ascii ''/unban''" and c: "contains uid (banned_users s)"
      by simp_all
    show "snd (handle_admin_commands tr now message s)
              = ([SendMessage (User uid) UnbanNotice, Reply (UnbanError err)],
                 snd (perform tr (Reply (UnbanError err))))
            \<and> \<not> is_user_banned uid (fst (handle_admin_commands tr now message s))"
      by (simp add: dispatch_unban [OF assms(1) l] cmd_unban_def c try_except_pair assms(2)
            perform_def contains_delete is_user_banned_def)
  qed
  from reg ban mute unmute unban show ?thesis by blast
qed

theorem failed_notification_keeps_mutation_witness:
  "handle_admin_commands (always_fails [101]) 100
     (command_message (ascii ''/ban'') (ascii ''tg://user?id=42''))
     \<lparr>muted_users = [(42, (500, [120]))], banned_users = []\<rparr>
   = (\<lparr>muted_users = [], banned_users = [(42, default_ban_reason)]\<rparr>,
      [SendMessage (User 42) (BanNotice default_ban_reason), Reply (BanError [101])],
      Raised (TelegramAPIError [101]))
   \<and> handle_admin_commands (always_fails [101]) 100
     (command_message (ascii ''/mute'') (ascii ''tg://user?id=42''))
     \<lparr>muted_users = [], banned_users = []\<rparr>
   = (\<lparr>muted_users = [(42, (3600000100, default_mute_reason))], banned_users = []\<rparr>,
      [SendMessage (User 42) (MuteNotice [49, 1095] default_mute_reason 3600000100),
       Reply (MuteError [101])],
      Raised (TelegramAPIError [101]))
   \<and> handle_admin_commands (always_fails [101]) 100
     (command_message (ascii ''/unmute'') (ascii ''tg://user?id=42''))
     \<lparr>muted_users = [(42, (500, [120]))], banned_users = []\<rparr>
   = (\<lparr>muted_users = [], banned_users = []\<rparr>,
      [SendMessage (User 42) UnmuteNotice, Reply (UnmuteError [101])],
      Raised (TelegramAPIError [101]))
   \<and> handle_admin_commands (always_fails [101]) 100
     (command_message (ascii ''/unban'') (ascii ''tg://user?id=42''))
     \<lparr>muted_users = [], banned_users = [(42, [120])]\<rparr>
   = (\<lparr>muted_users = [], banned_users = []\<rparr>,
      [SendMessage (User 42) UnbanNotice, Reply (UnbanError [101])],
      Raised (TelegramAPIError [101]))"
proof -
  have f: "\<And>txt. always_fails [101] (SendMessage (User 42) txt) = Some [101]"
    by (simp add: always_fails_def)
  have c1: "admin_command (command_message (ascii ''/ban'') (ascii ''tg://user?id=42''))
              = Some (42, [ascii ''/ban''])"
    by (simp add: eval_defs)
  have c2: "admin_command (command_message (ascii ''/mute'') (ascii ''tg://user?id=42''))
              = Some (42, [ascii ''/mute''])"
    by (simp add: eval_defs)
  have c3: "admin_command (command_message (ascii ''/unmute'') (ascii ''tg://user?id=42''))
              = Some (42, [ascii ''/unmute''])"
    by (simp add: eval_defs)
  have c4: "admin_command (command_message (ascii ''/unban'') (ascii ''tg://user?id=42''))
              = Some (42, [ascii ''/unban''])"
    by (simp add: eval_defs)
  have ban: "handle_admin_commands (always_fails [101]) 100
     (command_message (ascii ''/ban'') (ascii ''tg://user?id=42''))
     \<lparr>muted_users = [(42, (500, [120]))], banned_users = []\<rparr>
   = (\<lparr>muted_users = [], banned_users = [(42, default_ban_reason)]\<rparr>,
      [SendMessage (User 42) (BanNotice default_ban_reason), Reply (BanError [101])],
      Raised (TelegramAPIError [101]))"
    using failed_notification_keeps_mutation
        [where tr = "always_fails [101]" and now = 100, OF c1 f, of
        "\<lparr>muted_users = [(42, (500, [120]))], banned_users = []\<rparr>"]
    by (simp add: eval_defs prod_eq_iff)
  have mute: "handle_admin_commands (always_fails [101]) 100
     (command_message (ascii ''/mute'') (ascii ''tg://user?id=42''))
     \<lparr>muted_users = [], banned_users = []\<rparr>
   = (\<lparr>muted_users = [(42, (3600000100, default_mute_reason))], banned_users = []\<rparr>,
      [SendMessage (User 42) (MuteNotice [49, 1095] default_mute_reason 3600000100),
       Reply (MuteError [101])],
      Raised (TelegramAPIError [101]))"
    using failed_notification_keeps_mutation
        [where tr = "always_fails [101]" and now = 100, OF c2 f, of
        "\<lparr>muted_users = [], banned_users = []\<rparr>"]
    by (simp add: eval_defs prod_eq_iff)
  have unmute: "handle_admin_commands (always_fails [101]) 100
     (command_message (ascii ''/unmute'') (ascii ''tg://user?id=42''))
     \<lparr>muted_users = [(42, (500, [120]))], banned_users = []\<rparr>
   = (\<lparr>muted_users = [], banned_users = []\<rparr>,
      [SendMessage (User 42) UnmuteNotice, Reply (UnmuteError [101])],
      Raised (TelegramAPIError [101]))"
    using failed_notification_keeps_mutation
        [where tr = "always_fails [101]" and now = 100, OF c3 f, of
        "\<lparr>muted_users = [(42, (500, [120]))], banned_users = []\<rparr>"]
    by (simp add: eval_defs prod_eq_iff)
  have unban: "handle_admin_commands (always_fails [101]) 100
     (command_message (ascii ''/unban'') (ascii ''tg://user?id=42''))
     \<lparr>muted_users = [], banned_users = [(42, [120])]\<rparr>
   = (\<lparr>muted_users = [], banned_users = []\<rparr>,
      [SendMessage (User 42) UnbanNotice, Reply (UnbanError [101])],
      Raised (TelegramAPIError [101]))"
    using failed_notification_keeps_mutation
        [where tr = "always_fails [101]" and now = 100, OF c4 f, of
        "\<lparr>muted_users = [], banned_users = [(42, [120])]\<rparr>"]
    by (simp add: eval_defs prod_eq_iff)
  from ban mute unmute unban show ?thesis by blast
qed

text \<open>
  C8. For a private message from a user who is neither banned nor muted: a text of
  more than 4000 characters is answered with the length error and nothing is sent to
  the group, a shorter text is sent to the group; a media message whose caption has
  more than 1000 characters is answered with the caption error and nothing is copied
  to the group, any other media message is copied to the group.
\<close>

theorem relay_size_limits:
  assumes "\<not> is_user_banned (from_user_id message) s"
    and "\<not> fst (is_user_muted now (from_user_id message) s)"
  shows "(\<forall>t. msg_text message = Some t \<longrightarrow>
            fst (snd (send_message_to_group tr now now2 message s))
              = (if length t > 4000 then [Reply TextTooLong]
                 else [SendMessage Group
                         (GroupForward (full_name message) (from_user_id message) t)]))
       \<and> fst (snd (supported_media tr now now2 message s))
           = (let caption = (case msg_caption message of None \<Rightarrow> [] | Some c \<Rightarrow> c);
                  forward = CopyTo Group
                              (MediaCaption caption (full_name message) (from_user_id message))
              in if length caption > 1000 then [Reply CaptionTooLong]
                 else forward # (case tr forward of
                                   None \<Rightarrow> []
                                 | Some err \<Rightarrow> [Reply (MediaError err)]))"
proof -
  obtain s1 where g: "restricted_reply tr now now2 (from_user_id message) s = (None, s1)"
    using assms
    by (cases "is_user_muted now (from_user_id message) s")
       (auto simp: restricted_reply_def)
  have tx: "\<forall>t. msg_text message = Some t \<longrightarrow>
            fst (snd (send_message_to_group tr now now2 message s))
              = (if length t > 4000 then [Reply TextTooLong]
                 else [SendMessage Group
                         (GroupForward (full_name message) (from_user_id message) t)])"
    by (simp add: send_message_to_group_def g perform_def)
  have md: "fst (snd (supported_media tr now now2 message s))
           = (let caption = (case msg_caption message of None \<Rightarrow> [] | Some c \<Rightarrow> c);
                  forward = CopyTo Group
                              (MediaCaption caption (full_name message) (from_user_id message))
              in if length caption > 1000 then [Reply CaptionTooLong]
                 else forward # (case tr forward of
                                   None \<Rightarrow> []
                                 | Some err \<Rightarrow> [Reply (MediaError err)]))"
    by (auto simp: supported_media_def g perform_def try_except_single Let_def
             split: option.splits)
  from tx md show ?thesis by blast
qed

theorem relay_size_limits_witness:
  "\<not> is_user_banned 5 \<lparr>muted_users = [(5, (50, [120]))], banned_users = []\<rparr>
   \<and> \<not> fst (is_user_muted 100 5 \<lparr>muted_users = [(5, (50, [120]))], banned_users = []\<rparr>)
   \<and> fst (snd (send_message_to_group never_fails 100 101
        (Message 5 [65] (Some (replicate 4001 97)) (Some (replicate 1001 97)) None)
        \<lparr>muted_users = [(5, (50, [120]))], banned_users = []\<rparr>))
     = [Reply TextTooLong]
   \<and> fst (snd (supported_media never_fails 100 101
        (Message 5 [65] (Some (replicate 4001 97)) (Some (replicate 1001 97)) None)
        \<lparr>muted_users = [(5, (50, [120]))], banned_users = []\<rparr>))
     = [Reply CaptionTooLong]"
proof -
  have b: "\<not> is_user_banned
               (from_user_id
                  (Message 5 [65] (Some (replicate 4001 97)) (Some (replicate 1001 97)) None))
               \<lparr>muted_users = [(5, (50, [120]))], banned_users = []\<rparr>"
    by (simp add: is_user_banned_def contains_def)
  have m: "\<not> fst (is_user_muted 100
               (from_user_id
                  (Message 5 [65] (Some (replicate 4001 97)) (Some (replicate 1001 97)) None))
               \<lparr>muted_users = [(5, (50, [120]))], banned_users = []\<rparr>)"
    by (simp add: is_user_muted_def)
  show ?thesis
    using b m relay_size_limits [OF b m, of never_fails 101]
    by simp
qed

text \<open>
  C9. When the user has no mute record, the unmute command answers the invoker with
  the not-muted reply and never with the confirmation, sends nothing to the target,
  and leaves both registries as they were.
\<close>

theorem unmute_without_record:
  assumes "admin_command message = Some (uid, first # rest)"
    and "lower first = ascii ''/unmute''"
    and "map_of (muted_users s) uid = None"
  shows "fst (handle_admin_commands tr now message s) = s
       \<and> fst (snd (handle_admin_commands tr now message s))
           = Reply NotMuted
             # (case tr (Reply NotMuted) of None \<Rightarrow> [] | Some err \<Rightarrow> [Reply (UnmuteError err)])
       \<and> (\<forall>c txt. SendMessage c txt \<notin> set (fst (snd (handle_admin_commands tr now message s))))
       \<and> Reply UnmuteConfirm \<notin> set (fst (snd (handle_admin_commands tr now message s)))"
proof -
  have n: "\<not> contains uid (muted_users s)"
    using assms(3) by (simp add: contains_map_of)
  show ?thesis
    by (simp add: dispatch_unmute [OF assms(1,2)] cmd_unmute_def n try_except_single
        split: option.splits)
qed

theorem unmute_without_record_witness:
  "admin_command (command_message (ascii ''/unmute'') (ascii ''tg://user?id=7''))
     = Some (7, [ascii ''/unmute''])
   \<and> map_of (muted_users \<lparr>muted_users = [(8, (500, [120]))], banned_users = [(7, [121])]\<rparr>) 7
     = None
   \<and> fst (handle_admin_commands never_fails 100
        (command_message (ascii ''/unmute'') (ascii ''tg://user?id=7''))
        \<lparr>muted_users = [(8, (500, [120]))], banned_users = [(7, [121])]\<rparr>)
     = \<lparr>muted_users = [(8, (500, [120]))], banned_users = [(7, [121])]\<rparr>
   \<and> fst (snd (handle_admin_commands never_fails 100
        (command_message (ascii ''/unmute'') (ascii ''tg://user?id=7''))
        \<lparr>muted_users = [(8, (500, [120]))], banned_users = [(7, [121])]\<rparr>))
     = [Reply NotMuted]"
proof -
  have c: "admin_command (command_message (ascii ''/unmute'') (ascii ''tg://user?id=7''))
           = Some (7, [ascii ''/unmute''])"
    by (simp add: eval_defs)
  have l: "lower (ascii ''/unmute'') = ascii ''/unmute''"
    by (simp add: eval_defs)
  have m: "map_of (muted_users \<lparr>muted_users = [(8, (500, [120]))], banned_users = [(7, [121])]\<rparr>)
             7 = None"
    by simp
  show ?thesis
    using c m unmute_without_record [OF c l m, of never_fails 100]
    by (simp add: never_fails_def)
qed

text \<open>
  C10, as the code has it. When the hours and minutes tokens of the input have no more
  digits than \<open>int\<close> converts and amount to more than 1440 minutes, the parser returns
  1440 as the minute count, and the display it returns is built from the unclamped
  tokens: read as tokens again, the display gives the same hours and minutes, which do
  not amount to the returned count.
\<close>

theorem clamped_count_unclamped_display:
  assumes "hm = search_digits_before che d" and "mm = search_digits_before em d"
    and "token_within_limit hm" and "token_within_limit mm"
    and "tokens_minutes (token_value hm) (token_value mm) > 1440"
    and "display = tokens_display (token_value hm) (token_value mm)"
  shows "parse_duration d = Inr (1440, display)
       \<and> token_value (search_digits_before che display) = token_value hm
       \<and> token_value (search_digits_before em display) = token_value mm
       \<and> tokens_minutes (token_value (search_digits_before che display))
            (token_value (search_digits_before em display)) \<noteq> 1440"
proof -
  have ne: "d \<noteq> []"
    using assms(1,2,5) by (auto simp: tokens_minutes_def token_value_def)
  have hm: "search_digits_before che d = hm" and mm: "search_digits_before em d = mm"
    using assms(1,2) by simp_all
  have p: "parse_duration d = Inr (1440, display)"
    using hm mm assms(3-6) ne
    by (cases hm; cases mm)
       (simp_all add: parse_duration_def duration_parts_def int_of_digits_def
          token_within_limit_def tokens_minutes_def tokens_display_def token_value_def)
  show ?thesis
    using p assms(5) tokens_display_read_back [of "token_value hm" "token_value mm"]
    by (simp add: assms(6))
qed

theorem clamped_count_unclamped_display_witness:
  "search_digits_before che [53, 48, che] = Some [5, 0]
   \<and> search_digits_before em [53, 48, che] = None
   \<and> tokens_minutes (token_value (Some [5, 0])) (token_value None) = 3000
   \<and> parse_duration [53, 48, che] = Inr (1440, [53, 48, 1095])"
proof -
  have h: "Some [5, 0] = search_digits_before che [53, 48, che]"
    and m: "None = search_digits_before em [53, 48, che]"
    and lh: "token_within_limit (Some [5, 0])"
    and lm: "token_within_limit None"
    and t: "tokens_minutes (token_value (Some [5, 0])) (token_value None) > 1440"
    and v: "tokens_minutes (token_value (Some [5, 0])) (token_value None) = 3000"
    and d: "[53, 48, 1095] = tokens_display (token_value (Some [5, 0])) (token_value None)"
    by (simp_all add: eval_defs)
  show ?thesis
    using clamped_count_unclamped_display [OF h m lh lm t d] h [symmetric] m [symmetric] v
    by simp
qed

text \<open>
  C10, as stated, fails: with 4299 zeros before it, the hours token 25 amounts to 1500
  minutes, more than 1440, but has 4301 digits, and the parser does not return 1440:
  the conversion of the token raises \<open>ValueError\<close>.
\<close>

theorem long_token_counterexample:
  "tokens_minutes
     (token_value (search_digits_before che (replicate 4299 48 @ [50, 53, che])))
     (token_value (search_digits_before em (replicate 4299 48 @ [50, 53, che]))) = 1500
   \<and> parse_duration (replicate 4299 48 @ [50, 53, che]) = Inl DigitLimit"
proof -
  have h: "search_digits_before che ((replicate 4299 48 @ [50, 53]) @ che # [])
             = Some (map (\<lambda>c. c - 48) (replicate 4299 48 @ [50, 53]))"
    by (rule search_finds_run) (auto simp: decimal_markers)
  have c: "che \<noteq> em"
    by (simp add: che_def em_def)
  have m: "search_digits_before em ((replicate 4299 48 @ [50, 53]) @ che # [])
             = search_digits_before em []"
    by (rule search_skips_run) (auto simp: decimal_markers c)
  have h': "search_digits_before che (replicate 4299 48 @ [50, 53, che])
              = Some (replicate 4299 0 @ [2, 5])"
    using h by simp
  have m': "search_digits_before em (replicate 4299 48 @ [50, 53, che]) = None"
    using m by simp
  have v: "digits_value (replicate 4299 0 @ [2, 5]) = 25"
    by (simp add: digits_value_leading_zeros) (simp add: digits_value_def)
  have ne: "replicate 4299 (48 :: nat) @ [50, 53, che] \<noteq> []"
    by simp
  have t: "tokens_minutes
     (token_value (search_digits_before che (replicate 4299 48 @ [50, 53, che])))
     (token_value (search_digits_before em (replicate 4299 48 @ [50, 53, che]))) = 1500"
    unfolding h' m' by (simp add: tokens_minutes_def token_value_def v)
  have p: "parse_duration (replicate 4299 48 @ [50, 53, che]) = Inl DigitLimit"
    unfolding parse_duration_def duration_parts_def h'
    using ne by (simp add: int_of_digits_def int_max_str_digits_def)
  from t p show ?thesis by simp
qed

end
